theory Spec2Isabelle
  imports Main
begin

section \<open>Data model\<close>

text \<open>
  Go's \<^verbatim>\<open>time.Time\<close> (wrapped by \<^verbatim>\<open>metav1.Time\<close>) is an instant; it is modelled
  as the number of nanoseconds since Go's zero instant (January 1, year 1, 00:00:00 UTC).
  Instants before the zero instant are representable in Go, hence \<open>int\<close>.
  \<^verbatim>\<open>IsZero\<close> holds of the zero instant only and \<^verbatim>\<open>Before\<close> is the strict order.
\<close>

type_synonym time = int

definition zeroTime :: time where
  "zeroTime = 0"

definition IsZero :: "time \<Rightarrow> bool" where
  "IsZero t = (t = 0)"

definition Before :: "time \<Rightarrow> time \<Rightarrow> bool" where
  "Before t u = (t < u)"

text \<open>
  The Go \<^verbatim>\<open>error\<close> interface. \<open>NotFound\<close> is the kind that
  \<^verbatim>\<open>errors.IsNotFound\<close> recognises; \<open>Failure\<close> is any other error, with its message.
\<close>

datatype error =
    NotFound string
  | NotSupported string
  | NotInstalled string
  | EngineUnavailable
  | Failure string

fun IsNotFound :: "error \<Rightarrow> bool" where
  "IsNotFound (NotFound _) = True"
| "IsNotFound _ = False"

record typeMeta =
  APIVersion :: string
  Kind :: string

record localRegistryHosting =
  Host :: string
  Help :: string

text \<open>\<^verbatim>\<open>LocalRegistryHosting\<close> is a pointer in Go: \<open>None\<close> is \<^verbatim>\<open>nil\<close>.\<close>

record clusterStatus =
  CreationTimestamp :: time
  Current :: bool
  LocalRegistryHosting :: "localRegistryHosting option"

record cluster =
  TypeMeta :: typeMeta
  Name :: string
  Product :: string
  Registry :: string
  KubernetesVersion :: string
  MinCPUs :: int
  Status :: clusterStatus

record registryStatus =
  RegCreationTimestamp :: time
  HostPort :: int
  ContainerPort :: int
  IPAddress :: string
  ContainerID :: string
  Networks :: "string list"

record registry =
  RegName :: string
  RegStatus :: registryStatus

text \<open>A Kubernetes node, as far as \<^verbatim>\<open>populateCluster\<close> reads it.\<close>

record node =
  NodeName :: string
  NodeCreationTimestamp :: time

text \<open>
  \<^verbatim>\<open>clientcmdapi.Config\<close>. \<^verbatim>\<open>Contexts\<close> is a Go map, whose iteration order is
  not fixed: it is an association list, in the order in which one run of
  \<^verbatim>\<open>range\<close> visits the entries.
\<close>

record kcontext =
  CtxCluster :: string

record config =
  CurrentContext :: string
  Contexts :: "(string \<times> kcontext) list"

text \<open>
  What \<^verbatim>\<open>cluster.go\<close> calls outside itself: the kube-config loader
  (\<^verbatim>\<open>clientcmd.NewDefaultClientConfig(config, overrides).ClientConfig()\<close> with
  \<^verbatim>\<open>CurrentContext: name\<close>), the client constructor \<^verbatim>\<open>kubernetes.NewForConfig\<close>,
  the node query \<^verbatim>\<open>client.CoreV1().Nodes().List\<close>, and
  \<^verbatim>\<open>productFromContext(ct).String()\<close>. \<open>'r\<close> is the REST configuration and
  \<open>'c\<close> the client.
\<close>

record ('r, 'c) env =
  ClientConfig :: "config \<Rightarrow> string \<Rightarrow> error + 'r"
  NewForConfig :: "'r \<Rightarrow> error + 'c"
  NodesList :: "'c \<Rightarrow> error + node list"
  productFromContext :: "kcontext \<Rightarrow> string"

text \<open>
  \<^verbatim>\<open>type Controller struct { config; clients map[string]kubernetes.Interface; mu }\<close>.
  The mutex serialises calls of \<^verbatim>\<open>client\<close>; the model is sequential.
\<close>

record 'c controller =
  config :: config
  clients :: "string \<rightharpoonup> 'c"

section \<open>cluster.go\<close>

definition ControllerWithConfig :: "config \<Rightarrow> 'c controller" where
  "ControllerWithConfig cfg = \<lparr>config = cfg, clients = Map.empty\<rparr>"

text \<open>\<^verbatim>\<open>func (c *Controller) client(name string) (kubernetes.Interface, error)\<close>\<close>

definition client :: "('r, 'c) env \<Rightarrow> 'c controller \<Rightarrow> string \<Rightarrow> (error + 'c) \<times> 'c controller" where
  "client env c name =
     (case clients c name of
        Some cl \<Rightarrow> (Inr cl, c)
      | None \<Rightarrow>
          (case ClientConfig env (config c) name of
             Inl err \<Rightarrow> (Inl err, c)
           | Inr restConfig \<Rightarrow>
               (case NewForConfig env restConfig of
                  Inl err \<Rightarrow> (Inl err, c)
                | Inr cl \<Rightarrow> (Inr cl, c\<lparr>clients := (clients c)(name \<mapsto> cl)\<rparr>))))"

text \<open>One round of the loop of \<^verbatim>\<open>populateCluster\<close> over \<^verbatim>\<open>nodes.Items\<close>.\<close>

definition minTimeStep :: "time \<Rightarrow> node \<Rightarrow> time" where
  "minTimeStep minTime n =
     (let cTime = NodeCreationTimestamp n
      in if IsZero minTime \<or> Before cTime minTime then cTime else minTime)"

definition minNodeTime :: "node list \<Rightarrow> time" where
  "minNodeTime nodes = foldl minTimeStep zeroTime nodes"

text \<open>
  \<^verbatim>\<open>func (c *Controller) populateCluster(ctx, cluster *api.Cluster) error\<close>.
  The cluster is mutated through the pointer: the model returns the error (\<open>None\<close> is
  \<^verbatim>\<open>nil\<close>), the cluster after the call and the controller after the call.
\<close>

definition populateCluster ::
  "('r, 'c) env \<Rightarrow> 'c controller \<Rightarrow> cluster \<Rightarrow> error option \<times> cluster \<times> 'c controller" where
  "populateCluster env c cl =
     (case client env c (Name cl) of
        (Inl err, c') \<Rightarrow> (Some err, cl, c')
      | (Inr k, c') \<Rightarrow>
          (case NodesList env k of
             Inl err \<Rightarrow> (Some err, cl, c')
           | Inr nodes \<Rightarrow>
               (None, cl\<lparr>Status := (Status cl)\<lparr>CreationTimestamp := minNodeTime nodes\<rparr>\<rparr>, c')))"

text \<open>What \<^verbatim>\<open>populateCluster\<close> returns and leaves in the cluster, without the controller.\<close>

definition populated :: "('r, 'c) env \<Rightarrow> 'c controller \<Rightarrow> cluster \<Rightarrow> error option \<times> cluster" where
  "populated env c cl = (case populateCluster env c cl of (err, cl', c') \<Rightarrow> (err, cl'))"

text \<open>
  The \<^verbatim>\<open>&api.Cluster{TypeMeta: ..., Name: name, Product: ...}\<close> literal of \<^verbatim>\<open>List\<close>:
  every other field has Go's zero value.
\<close>

definition zeroStatus :: clusterStatus where
  "zeroStatus = \<lparr>CreationTimestamp = zeroTime, Current = False, LocalRegistryHosting = None\<rparr>"

definition newCluster :: "('r, 'c) env \<Rightarrow> string \<times> kcontext \<Rightarrow> cluster" where
  "newCluster env entry =
     \<lparr>TypeMeta = \<lparr>APIVersion = ''ctlptl.dev/v1alpha1'', Kind = ''Cluster''\<rparr>,
      Name = fst entry,
      Product = productFromContext env (snd entry),
      Registry = [],
      KubernetesVersion = [],
      MinCPUs = 0,
      Status = zeroStatus\<rparr>"

text \<open>
  The loop of \<^verbatim>\<open>List\<close>. The accumulator is the result so far, the warnings logged
  so far (\<^verbatim>\<open>klog.V(4).Infof\<close>, as the pair of the context name and the error) and
  the controller. The result holds a pointer to the cluster, so the status that
  \<^verbatim>\<open>populateCluster\<close> writes after the \<^verbatim>\<open>append\<close> is the status of the entry.
\<close>

fun listLoop ::
  "('r, 'c) env \<Rightarrow> (string \<times> kcontext) list \<Rightarrow> cluster list \<times> (string \<times> error) list \<times> 'c controller
     \<Rightarrow> cluster list \<times> (string \<times> error) list \<times> 'c controller" where
  "listLoop env [] acc = acc"
| "listLoop env (entry # rest) (result, warnings, c) =
     (case populateCluster env c (newCluster env entry) of
        (None, cl, c') \<Rightarrow> listLoop env rest (result @ [cl], warnings, c')
      | (Some err, cl, c') \<Rightarrow> listLoop env rest (result @ [cl], warnings @ [(fst entry, err)], c'))"

text \<open>
  \<^verbatim>\<open>func (c *Controller) List(ctx) ([]*api.Cluster, error)\<close>: the result, the error,
  the warnings logged and the controller after the call.
\<close>

definition List ::
  "('r, 'c) env \<Rightarrow> 'c controller
     \<Rightarrow> cluster list \<times> error option \<times> (string \<times> error) list \<times> 'c controller" where
  "List env c =
     (case listLoop env (Contexts (config c)) ([], [], c) of
        (result, warnings, c') \<Rightarrow> (result, None, warnings, c'))"

text \<open>
  A run of later calls of \<^verbatim>\<open>client\<close>: each step may find the controller's
  configuration replaced (\<open>cfg\<close>), runs against its own environment (the kube-config
  loader and the client constructor as they are then) and asks for any name.
\<close>

fun clientCalls :: "'c controller \<Rightarrow> (('r, 'c) env \<times> config \<times> string) list \<Rightarrow> 'c controller" where
  "clientCalls c [] = c"
| "clientCalls c ((env, cfg, n) # rest) = clientCalls (snd (client env (c\<lparr>config := cfg\<rparr>) n)) rest"

section \<open>get.go\<close>

text \<open>
  \<^verbatim>\<open>metav1.Table\<close>. Every cell that \<^verbatim>\<open>get.go\<close> writes is a string.
\<close>

record tableColumnDefinition =
  ColumnName :: string
  ColumnType :: string

record tableRow =
  Cells :: "string list"

record table =
  TableTypeMeta :: typeMeta
  ColumnDefinitions :: "tableColumnDefinition list"
  Rows :: "tableRow list"

text \<open>
  \<^verbatim>\<open>runtime.Object\<close>: the dynamic types that \<^verbatim>\<open>transformForOutput\<close> switches on
  (pointers to a registry, a registry list, a cluster, a cluster list), a table, and any
  other object, named by its kind. The pointers are not \<^verbatim>\<open>nil\<close>.
\<close>

datatype object =
    RegistryObj registry
  | RegistryListObj "registry list"
  | ClusterObj cluster
  | ClusterListObj "cluster list"
  | TableObj table
  | OtherObj string

text \<open>
  \<^verbatim>\<open>GetOptions\<close>. \<open>OutputFlagSpecifiedFn\<close> is the function field
  \<^verbatim>\<open>PrintFlags.OutputFlagSpecified\<close>: \<open>None\<close> when it is \<^verbatim>\<open>nil\<close>, else what it returns.
\<close>

record getOptions =
  OutputFlagSpecifiedFn :: "bool option"
  StartTime :: time
  IgnoreNotFound :: bool
  FieldSelector :: string

text \<open>\<^verbatim>\<open>func (o *GetOptions) OutputFlagSpecified() bool\<close>\<close>

definition OutputFlagSpecified :: "getOptions \<Rightarrow> bool" where
  "OutputFlagSpecified opts = (case OutputFlagSpecifiedFn opts of None \<Rightarrow> False | Some b \<Rightarrow> b)"

text \<open>
  \<^verbatim>\<open>time.Time.Sub\<close>: the difference as a \<^verbatim>\<open>Duration\<close> (an \<^verbatim>\<open>int64\<close> of
  nanoseconds), saturating at the least and greatest duration.
\<close>

definition Sub :: "time \<Rightarrow> time \<Rightarrow> int" where
  "Sub t u =
     (let d = t - u
      in if d < - (2 ^ 63) then - (2 ^ 63) else if 2 ^ 63 - 1 < d then 2 ^ 63 - 1 else d)"

text \<open>\<^verbatim>\<open>%d\<close> of \<^verbatim>\<open>fmt.Sprintf\<close>: the decimal digits, with a minus sign below zero.\<close>

fun showNat :: "nat \<Rightarrow> string" where
  "showNat n = (if n < 10 then [''0123456789'' ! n] else showNat (n div 10) @ [''0123456789'' ! (n mod 10)])"

declare showNat.simps [simp del]

definition showInt :: "int \<Rightarrow> string" where
  "showInt i = (if i < 0 then CHR ''-'' # showNat (nat (- i)) else showNat (nat i))"

text \<open>
  The body of the loop of \<^verbatim>\<open>clustersAsTable\<close>: the row of one cluster.
  \<open>shortHumanDuration\<close> is \<^verbatim>\<open>duration.ShortHumanDuration\<close> of the Kubernetes library.
\<close>

definition clusterRow :: "(int \<Rightarrow> string) \<Rightarrow> getOptions \<Rightarrow> cluster \<Rightarrow> tableRow" where
  "clusterRow shortHumanDuration opts cl =
     (let cTime = CreationTimestamp (Status cl);
          age = (if \<not> IsZero cTime then shortHumanDuration (Sub (StartTime opts) cTime) else ''unknown'');
          rHost0 = (case LocalRegistryHosting (Status cl) of None \<Rightarrow> [] | Some h \<Rightarrow> Host h);
          rHost = (if rHost0 = [] then ''none'' else rHost0);
          current = (if Current (Status cl) then ''*'' else [])
      in \<lparr>Cells = [current, Name cl, Product cl, age, rHost]\<rparr>)"

text \<open>\<^verbatim>\<open>func (o *GetOptions) clustersAsTable(clusters []api.Cluster) runtime.Object\<close>\<close>

definition clustersAsTable :: "(int \<Rightarrow> string) \<Rightarrow> getOptions \<Rightarrow> cluster list \<Rightarrow> table" where
  "clustersAsTable shortHumanDuration opts cls =
     \<lparr>TableTypeMeta = \<lparr>APIVersion = ''metav1.k8s.io'', Kind = ''Table''\<rparr>,
      ColumnDefinitions =
        [\<lparr>ColumnName = ''Current'', ColumnType = ''string''\<rparr>,
         \<lparr>ColumnName = ''Name'', ColumnType = ''string''\<rparr>,
         \<lparr>ColumnName = ''Product'', ColumnType = ''string''\<rparr>,
         \<lparr>ColumnName = ''Age'', ColumnType = ''string''\<rparr>,
         \<lparr>ColumnName = ''Registry'', ColumnType = ''string''\<rparr>],
      Rows = map (clusterRow shortHumanDuration opts) cls\<rparr>"

text \<open>The body of the loop of \<^verbatim>\<open>registriesAsTable\<close>: the row of one registry.\<close>

definition registryRow :: "(int \<Rightarrow> string) \<Rightarrow> getOptions \<Rightarrow> registry \<Rightarrow> tableRow" where
  "registryRow shortHumanDuration opts r =
     (let cTime = RegCreationTimestamp (RegStatus r);
          age = (if \<not> IsZero cTime then shortHumanDuration (Sub (StartTime opts) cTime) else ''unknown'');
          hostAddress =
            (if HostPort (RegStatus r) \<noteq> 0 then ''localhost:'' @ showInt (HostPort (RegStatus r))
             else ''none'');
          containerAddress =
            (if ContainerPort (RegStatus r) \<noteq> 0 \<and> IPAddress (RegStatus r) \<noteq> []
             then IPAddress (RegStatus r) @ '':'' @ showInt (ContainerPort (RegStatus r))
             else ''none'')
      in \<lparr>Cells = [RegName r, hostAddress, containerAddress, age]\<rparr>)"

text \<open>\<^verbatim>\<open>func (o *GetOptions) registriesAsTable(registries []api.Registry) runtime.Object\<close>\<close>

definition registriesAsTable :: "(int \<Rightarrow> string) \<Rightarrow> getOptions \<Rightarrow> registry list \<Rightarrow> table" where
  "registriesAsTable shortHumanDuration opts rs =
     \<lparr>TableTypeMeta = \<lparr>APIVersion = ''metav1.k8s.io'', Kind = ''Table''\<rparr>,
      ColumnDefinitions =
        [\<lparr>ColumnName = ''Name'', ColumnType = ''string''\<rparr>,
         \<lparr>ColumnName = ''Host Address'', ColumnType = ''int''\<rparr>,
         \<lparr>ColumnName = ''Container Address'', ColumnType = ''string''\<rparr>,
         \<lparr>ColumnName = ''Age'', ColumnType = ''string''\<rparr>],
      Rows = map (registryRow shortHumanDuration opts) rs\<rparr>"

text \<open>\<^verbatim>\<open>func (o *GetOptions) transformForOutput(obj runtime.Object) runtime.Object\<close>\<close>

definition transformForOutput :: "(int \<Rightarrow> string) \<Rightarrow> getOptions \<Rightarrow> object \<Rightarrow> object" where
  "transformForOutput shortHumanDuration opts obj =
     (if OutputFlagSpecified opts then obj
      else (case obj of
              RegistryObj r \<Rightarrow> TableObj (registriesAsTable shortHumanDuration opts [r])
            | RegistryListObj items \<Rightarrow> TableObj (registriesAsTable shortHumanDuration opts items)
            | ClusterObj r \<Rightarrow> TableObj (clustersAsTable shortHumanDuration opts [r])
            | ClusterListObj items \<Rightarrow> TableObj (clustersAsTable shortHumanDuration opts items)
            | _ \<Rightarrow> obj))"

section \<open>The fake Docker Desktop client of cluster\_test.go\<close>

text \<open>
  A value of \<^verbatim>\<open>interface{}\<close> in a settings map (\<^verbatim>\<open>map[string]interface{}\<close>);
  \<open>VNil\<close> is the \<^verbatim>\<open>nil\<close> interface. A type assertion \<^verbatim>\<open>v.(int)\<close> or
  \<^verbatim>\<open>v.(bool)\<close> on a value of another dynamic type panics.
\<close>

datatype val = VNil | VInt int | VBool bool | VString string

text \<open>
  The panics of the fake client: a failed type assertion, and an assignment to an
  entry of a \<^verbatim>\<open>nil\<close> map.
\<close>

datatype panic = TypeAssertion | NilMapAssignment

text \<open>
  A Go map value of type \<^verbatim>\<open>map[string]interface{}\<close>: \<open>None\<close> is the \<^verbatim>\<open>nil\<close> map,
  \<open>Some m\<close> a map that has been made, with the entries \<open>m\<close>. The two differ: a read
  of the \<^verbatim>\<open>nil\<close> map finds no key, as a read of the empty map does, and an assignment
  to an entry of the \<^verbatim>\<open>nil\<close> map panics.
\<close>

type_synonym settings = "(string \<rightharpoonup> val) option"

text \<open>\<^verbatim>\<open>v, ok := settings[k]\<close>: \<open>None\<close> when \<^verbatim>\<open>ok\<close> is false.\<close>

definition mapIndex :: "settings \<Rightarrow> string \<Rightarrow> val option" where
  "mapIndex s k = (case s of None \<Rightarrow> None | Some m \<Rightarrow> m k)"

text \<open>\<^verbatim>\<open>settings[k] = v\<close>: the map is mutated in place; the model returns it.\<close>

definition mapAssign :: "settings \<Rightarrow> string \<Rightarrow> val \<Rightarrow> panic + settings" where
  "mapAssign s k v = (case s of None \<Rightarrow> Inl NilMapAssignment | Some m \<Rightarrow> Inr (Some (m(k \<mapsto> v))))"

text \<open>
  \<^verbatim>\<open>func (c *fakeD4MClient) setK8sEnabled(settings, desired bool) (bool, error)\<close>.
  The error is always \<^verbatim>\<open>nil\<close>; \<open>Inl\<close> is a panic. \<open>desired\<close> is not read.
\<close>

definition setK8sEnabled :: "settings \<Rightarrow> bool \<Rightarrow> panic + (settings \<times> bool)" where
  "setK8sEnabled s desired =
     (let assign = (case mapAssign s ''k8sEnabled'' (VBool True) of
                      Inl p \<Rightarrow> Inl p
                    | Inr s' \<Rightarrow> Inr (s', True))
      in case mapIndex s ''k8sEnabled'' of
           None \<Rightarrow> assign
         | Some (VBool enabled) \<Rightarrow> (if enabled = True then Inr (s, False) else assign)
         | Some _ \<Rightarrow> Inl TypeAssertion)"

text \<open>\<^verbatim>\<open>func (c *fakeD4MClient) ensureMinCPU(settings, desired int) (bool, error)\<close>\<close>

definition ensureMinCPU :: "settings \<Rightarrow> int \<Rightarrow> panic + (settings \<times> bool)" where
  "ensureMinCPU s desired =
     (let assign = (case mapAssign s ''cpu'' (VInt desired) of
                      Inl p \<Rightarrow> Inl p
                    | Inr s' \<Rightarrow> Inr (s', True))
      in case mapIndex s ''cpu'' of
           None \<Rightarrow> assign
         | Some (VInt cpu) \<Rightarrow> (if cpu \<ge> desired then Inr (s, False) else assign)
         | Some _ \<Rightarrow> Inl TypeAssertion)"

text \<open>\<^verbatim>\<open>type fakeDockerClient struct { started bool; ncpu int }\<close>\<close>

record fakeDockerClient =
  dockerStarted :: bool
  ncpu :: int

text \<open>
  \<^verbatim>\<open>type fakeD4MClient struct\<close>; \<open>docker\<close> is the client behind the pointer
  \<^verbatim>\<open>docker\<close>.
\<close>

record fakeD4MClient =
  lastSettings :: settings
  docker :: fakeDockerClient
  d4mStarted :: bool
  settingsWriteCount :: int
  resetCount :: int

text \<open>
  The client of \<^verbatim>\<open>newFixture\<close>: \<^verbatim>\<open>&fakeD4MClient{docker: &fakeDockerClient{ncpu: 1}}\<close>,
  every other field with Go's zero value, so \<^verbatim>\<open>lastSettings\<close> is the \<^verbatim>\<open>nil\<close> map.
\<close>

definition fixtureD4M :: fakeD4MClient where
  "fixtureD4M =
     \<lparr>lastSettings = None, docker = \<lparr>dockerStarted = False, ncpu = 1\<rparr>, d4mStarted = False,
      settingsWriteCount = 0, resetCount = 0\<rparr>"

text \<open>\<^verbatim>\<open>func (c *fakeD4MClient) settings(ctx) (map[string]interface{}, error)\<close>; the error is \<^verbatim>\<open>nil\<close>.\<close>

definition fakeD4MClient_settings :: "fakeD4MClient \<Rightarrow> settings" where
  "fakeD4MClient_settings c = lastSettings c"

text \<open>\<^verbatim>\<open>func (c *fakeD4MClient) start(ctx) error\<close>; the error is \<^verbatim>\<open>nil\<close>.\<close>

definition fakeD4MClient_start :: "fakeD4MClient \<Rightarrow> fakeD4MClient" where
  "fakeD4MClient_start c =
     c\<lparr>lastSettings := Some [''cpu'' \<mapsto> VInt (ncpu (docker c))],
       d4mStarted := True,
       docker := (docker c)\<lparr>dockerStarted := True\<rparr>\<rparr>"

text \<open>
  The schema of the entries of a settings map: \<^verbatim>\<open>cpu\<close>, when present, holds an
  \<^verbatim>\<open>int\<close> and \<^verbatim>\<open>k8sEnabled\<close>, when present, holds a \<^verbatim>\<open>bool\<close>. Every map that
  \<^verbatim>\<open>fakeD4MClient\<close> builds (\<^verbatim>\<open>start\<close>) or updates has it.
\<close>

definition cpuTyped :: "(string \<rightharpoonup> val) \<Rightarrow> bool" where
  "cpuTyped m = (case m ''cpu'' of None \<Rightarrow> True | Some (VInt _) \<Rightarrow> True | Some _ \<Rightarrow> False)"

definition k8sTyped :: "(string \<rightharpoonup> val) \<Rightarrow> bool" where
  "k8sTyped m = (case m ''k8sEnabled'' of None \<Rightarrow> True | Some (VBool _) \<Rightarrow> True | Some _ \<Rightarrow> False)"

section \<open>The fake backend adapter of cluster\_test.go\<close>

text \<open>
  \<^verbatim>\<open>type fakeAdmin struct\<close>, with what it shares with the fixture written out:
  \<open>adminContexts\<close> and \<open>adminClusters\<close> are the maps \<^verbatim>\<open>a.config.Contexts\<close> and
  \<^verbatim>\<open>a.config.Clusters\<close> (a cluster entry by its \<^verbatim>\<open>Server\<close>), and
  \<open>fakedServerVersion\<close> is the \<^verbatim>\<open>GitVersion\<close> of the fake discovery client's
  \<^verbatim>\<open>FakedServerVersion\<close> (\<open>None\<close> while that pointer is \<^verbatim>\<open>nil\<close>).
\<close>

record fakeAdmin =
  created :: "cluster option"
  createdRegistry :: "registry option"
  deleted :: "cluster option"
  adminContexts :: "string \<rightharpoonup> kcontext"
  adminClusters :: "string \<rightharpoonup> string"
  fakedServerVersion :: "string option"

text \<open>\<^verbatim>\<open>func (a *fakeAdmin) EnsureInstalled(ctx) error { return nil }\<close>\<close>

definition fakeAdmin_EnsureInstalled :: "fakeAdmin \<Rightarrow> error option" where
  "fakeAdmin_EnsureInstalled a = None"

text \<open>\<^verbatim>\<open>func (a *fakeAdmin) Create(ctx, config *api.Cluster, registry *api.Registry) error\<close>\<close>

definition fakeAdmin_Create :: "cluster \<Rightarrow> registry option \<Rightarrow> fakeAdmin \<Rightarrow> error option \<times> fakeAdmin" where
  "fakeAdmin_Create cfg reg a =
     (let kVersion = (if KubernetesVersion cfg = [] then ''v1.19.1'' else KubernetesVersion cfg)
      in (None,
          a\<lparr>created := Some cfg,
            createdRegistry := reg,
            adminContexts := (adminContexts a)(Name cfg \<mapsto> \<lparr>CtxCluster = Name cfg\<rparr>),
            adminClusters := (adminClusters a)(Name cfg \<mapsto> ''http://'' @ Name cfg @ ''.localhost/''),
            fakedServerVersion := Some kVersion\<rparr>))"

text \<open>\<^verbatim>\<open>func (a *fakeAdmin) Delete(ctx, config *api.Cluster) error\<close>\<close>

definition fakeAdmin_Delete :: "cluster \<Rightarrow> fakeAdmin \<Rightarrow> error option \<times> fakeAdmin" where
  "fakeAdmin_Delete cfg a =
     (None, a\<lparr>deleted := Some cfg, adminContexts := (adminContexts a)(Name cfg := None)\<rparr>)"

text \<open>\<^verbatim>\<open>func (a *fakeAdmin) LocalRegistryHosting(registry) *LocalRegistryHostingV1\<close>\<close>

definition fakeAdmin_LocalRegistryHosting :: "registry \<Rightarrow> localRegistryHosting" where
  "fakeAdmin_LocalRegistryHosting r =
     \<lparr>Host = ''localhost:'' @ showInt (HostPort (RegStatus r)),
      Help = ''https://github.com/tilt-dev/ctlptl''\<rparr>"

text \<open>
  \<^verbatim>\<open>func (c *fakeRegistryController) Apply(ctx, r *api.Registry) (*api.Registry, error)\<close>;
  the state is \<^verbatim>\<open>lastApply\<close>.
\<close>

definition fakeRegistryController_Apply :: "registry \<Rightarrow> registry option \<Rightarrow> (error + registry) \<times> registry option" where
  "fakeRegistryController_Apply r lastApply =
     (Inr (r\<lparr>RegStatus :=
              \<lparr>RegCreationTimestamp = zeroTime, HostPort = 5000, ContainerPort = 5000,
               IPAddress = ''172.0.0.2'', ContainerID = ''fake-container-id'',
               Networks = [''bridge'']\<rparr>\<rparr>),
      Some r)"

section \<open>List with options, Get and Apply\<close>

text \<open>
  Modelled from the spec: \<^verbatim>\<open>ListOptions\<close> and the \<^verbatim>\<open>List(ctx, options)\<close> that
  \<^verbatim>\<open>get.go\<close> and the tests call are missing from the sources, where \<^verbatim>\<open>List\<close> takes
  no options. A field selector is a conjunction of requirements, each an exact match or
  a not-equal on one field of the fixed projection; the projection has the two fields
  the spec names, \<^verbatim>\<open>name\<close> and \<^verbatim>\<open>product\<close>. The empty selector selects every entry.
\<close>

datatype field = FieldName | FieldProduct

text \<open>Modelled from the spec: one requirement of a field selector, an exact match or a not-equal.\<close>

datatype requirement = Equals field string | NotEquals field string

type_synonym selector = "requirement list"

text \<open>Modelled from the spec: the fixed projection of a cluster onto the fields of a selector.\<close>

fun clusterField :: "cluster \<Rightarrow> field \<Rightarrow> string" where
  "clusterField cl FieldName = Name cl"
| "clusterField cl FieldProduct = Product cl"

text \<open>Modelled from the spec: whether a cluster meets one requirement.\<close>

fun matchesRequirement :: "cluster \<Rightarrow> requirement \<Rightarrow> bool" where
  "matchesRequirement cl (Equals f v) = (clusterField cl f = v)"
| "matchesRequirement cl (NotEquals f v) = (clusterField cl f \<noteq> v)"

text \<open>Modelled from the spec: whether a cluster meets every requirement of a selector.\<close>

definition matches :: "selector \<Rightarrow> cluster \<Rightarrow> bool" where
  "matches sel cl = list_all (matchesRequirement cl) sel"

text \<open>
  Modelled from the spec: \<^verbatim>\<open>List(ctx, options)\<close> enumerates the recorded contexts,
  synthesizes and best-effort populates one cluster each (as \<^verbatim>\<open>List\<close> of the sources
  does) and keeps the entries that the field selector matches; an unmatched filter
  yields an empty result, not an error.
\<close>

definition ListWithOptions ::
  "('r, 'c) env \<Rightarrow> 'c controller \<Rightarrow> selector
     \<Rightarrow> cluster list \<times> error option \<times> (string \<times> error) list \<times> 'c controller" where
  "ListWithOptions env c sel =
     (case List env c of
        (result, err, warnings, c') \<Rightarrow> (filter (matches sel) result, None, warnings, c'))"

text \<open>
  Modelled from the spec: \<^verbatim>\<open>Get(ctx, name)\<close> is missing from the sources. It is
  equivalent to a filtered \<^verbatim>\<open>List\<close> of one, and fails with NotFound if the name is
  not among the recorded contexts.
\<close>

definition Get :: "('r, 'c) env \<Rightarrow> 'c controller \<Rightarrow> string \<Rightarrow> (error + cluster) \<times> 'c controller" where
  "Get env c name =
     (case ListWithOptions env c [Equals FieldName name] of
        ([], err, warnings, c') \<Rightarrow> (Inl (NotFound name), c')
      | (cl # rest, err, warnings, c') \<Rightarrow> (Inr cl, c'))"

text \<open>
  Modelled from the spec: the backend adapter (section 4.2), one per product, over the
  state \<open>'w\<close> of the machine it acts on.
\<close>

record 'w admin =
  EnsureInstalled :: "'w \<Rightarrow> error option"
  Create :: "cluster \<Rightarrow> registry option \<Rightarrow> 'w \<Rightarrow> error option \<times> 'w"
  Delete :: "cluster \<Rightarrow> 'w \<Rightarrow> error option \<times> 'w"
  LocalRegistryHostingOf :: "registry \<Rightarrow> localRegistryHosting"

text \<open>
  Modelled from the spec: the collaborators of \<^verbatim>\<open>Controller.Apply\<close> (section 4.1):
  the canonical name of a product (step 1), the product-keyed adapters (step 2), which
  product is the desktop-virtualization one and its machine controller (step 4), the
  read of the current state, giving the existing cluster of a name and its running
  Kubernetes version (step 5), the registry coordinator's Apply (step 7) and the read of
  the creation timestamp and the current-context flag (step 8).
\<close>

record 'w applyEnv =
  canonicalName :: "string \<Rightarrow> string"
  admins :: "string \<rightharpoonup> 'w admin"
  isDesktop :: "string \<Rightarrow> bool"
  ensureMachine :: "cluster \<Rightarrow> 'w \<Rightarrow> error option \<times> 'w"
  observe :: "'w \<Rightarrow> string \<Rightarrow> (cluster \<times> string) option"
  registryApply :: "registry \<Rightarrow> 'w \<Rightarrow> (error + registry) \<times> 'w"
  readStatus :: "'w \<Rightarrow> cluster \<Rightarrow> cluster"

text \<open>
  Modelled from the spec: what \<^verbatim>\<open>Apply\<close> does that others see (the calls of its
  collaborators and the informational message), in the order in which it does it.
\<close>

datatype event =
    EnsureInstalledCalled string
  | EnsureMachineCalled
  | DeleteCalled cluster
  | Message string
  | RegistryApplyCalled registry
  | CreateCalled cluster "registry option"

text \<open>Modelled from the spec: the informational message of step 6 of \<^verbatim>\<open>Apply\<close>.\<close>

definition deleteMessage :: "string \<Rightarrow> string \<Rightarrow> string \<Rightarrow> string" where
  "deleteMessage name want cur =
     ''Deleting cluster '' @ name @ '' because desired Kubernetes version ('' @ want @
     '') does not match current ('' @ cur @ '')''"

text \<open>
  The status of a registry that has only been named: Go's zero value of
  \<^verbatim>\<open>api.RegistryStatus\<close>.
\<close>

definition zeroRegistryStatus :: registryStatus where
  "zeroRegistryStatus =
     \<lparr>RegCreationTimestamp = 0, HostPort = 0, ContainerPort = 0, IPAddress = [],
      ContainerID = [], Networks = []\<rparr>"

text \<open>Modelled from the spec: step 1 of \<^verbatim>\<open>Apply\<close>, the canonical name when none is set.\<close>

definition resolveName :: "'w applyEnv \<Rightarrow> cluster \<Rightarrow> cluster" where
  "resolveName env desired =
     (if Name desired = [] then desired\<lparr>Name := canonicalName env (Product desired)\<rparr> else desired)"

text \<open>Modelled from the spec: step 4 of \<^verbatim>\<open>Apply\<close>, for the desktop-virtualization product only.\<close>

definition ensureDesktop :: "'w applyEnv \<Rightarrow> cluster \<Rightarrow> 'w \<Rightarrow> error option \<times> 'w \<times> event list" where
  "ensureDesktop env desired w =
     (if isDesktop env (Product desired)
      then (case ensureMachine env desired w of (err, w') \<Rightarrow> (err, w', [EnsureMachineCalled]))
      else (None, w, []))"

text \<open>
  Modelled from the spec: the first half of step 7 of \<^verbatim>\<open>Apply\<close>: if \<^verbatim>\<open>Registry\<close> is
  set, the registry of that name is realized through the registry coordinator's Apply.
\<close>

definition realizeRegistry ::
  "'w applyEnv \<Rightarrow> cluster \<Rightarrow> 'w \<Rightarrow> (error + registry option) \<times> 'w \<times> event list" where
  "realizeRegistry env desired w =
     (if Registry desired = [] then (Inr None, w, [])
      else (let r = \<lparr>RegName = Registry desired, RegStatus = zeroRegistryStatus\<rparr>
            in case registryApply env r w of
                 (Inl err, w') \<Rightarrow> (Inl err, w', [RegistryApplyCalled r])
               | (Inr r', w') \<Rightarrow> (Inr (Some r'), w', [RegistryApplyCalled r])))"

text \<open>
  Modelled from the spec: step 8 of \<^verbatim>\<open>Apply\<close>: the creation timestamp, the
  current-context flag, and the local-registry-hosting descriptor, through the adapter,
  when a registry is attached.
\<close>

definition finalStatus :: "'w applyEnv \<Rightarrow> 'w admin \<Rightarrow> registry option \<Rightarrow> 'w \<Rightarrow> cluster \<Rightarrow> cluster" where
  "finalStatus env adm reg w cl =
     (let cl' = readStatus env w cl
      in case reg of
           None \<Rightarrow> cl'
         | Some r \<Rightarrow> cl'\<lparr>Status := (Status cl')\<lparr>LocalRegistryHosting := Some (LocalRegistryHostingOf adm r)\<rparr>\<rparr>)"

text \<open>Modelled from the spec: steps 7 and 8 of \<^verbatim>\<open>Apply\<close>: the registry, then the adapter's Create.\<close>

definition applyCreate ::
  "'w applyEnv \<Rightarrow> 'w admin \<Rightarrow> cluster \<Rightarrow> 'w \<Rightarrow> (error + cluster) \<times> 'w \<times> event list" where
  "applyCreate env adm desired w =
     (case realizeRegistry env desired w of
        (Inl err, w1, evs) \<Rightarrow> (Inl err, w1, evs)
      | (Inr reg, w1, evs) \<Rightarrow>
          (case Create adm desired reg w1 of
             (Some err, w2) \<Rightarrow> (Inl err, w2, evs @ [CreateCalled desired reg])
           | (None, w2) \<Rightarrow>
               (Inr (finalStatus env adm reg w2 desired), w2, evs @ [CreateCalled desired reg])))"

text \<open>
  Modelled from the spec: steps 5 and 6 of \<^verbatim>\<open>Apply\<close>. An existing cluster whose
  running version differs from a set \<^verbatim>\<open>KubernetesVersion\<close> is deleted first, the
  message is emitted, and the creation follows; an existing cluster otherwise is
  returned with its freshly read status and no backend call; a missing one is created.
\<close>

definition applyReconcile ::
  "'w applyEnv \<Rightarrow> 'w admin \<Rightarrow> cluster \<Rightarrow> 'w \<Rightarrow> (error + cluster) \<times> 'w \<times> event list" where
  "applyReconcile env adm desired w =
     (case observe env w (Name desired) of
        None \<Rightarrow> applyCreate env adm desired w
      | Some (existing, cur) \<Rightarrow>
          (if KubernetesVersion desired \<noteq> [] \<and> KubernetesVersion desired \<noteq> cur
           then (case Delete adm existing w of
                   (Some err, w1) \<Rightarrow> (Inl err, w1, [DeleteCalled existing])
                 | (None, w1) \<Rightarrow>
                     (case applyCreate env adm desired w1 of
                        (res, w2, evs) \<Rightarrow>
                          (res, w2,
                           [DeleteCalled existing,
                            Message (deleteMessage (Name desired) (KubernetesVersion desired) cur)] @ evs)))
           else (Inr (readStatus env w existing), w, [])))"

text \<open>
  Modelled from the spec: \<^verbatim>\<open>Controller.Apply\<close> (section 4.1), which is missing from
  the sources: the result, the state after the call and the events of the call. It is
  fail-fast: the first error ends it.
\<close>

definition Apply :: "'w applyEnv \<Rightarrow> cluster \<Rightarrow> 'w \<Rightarrow> (error + cluster) \<times> 'w \<times> event list" where
  "Apply env desired0 w =
     (let desired = resolveName env desired0
      in case admins env (Product desired) of
           None \<Rightarrow> (Inl (NotSupported (Product desired)), w, [])
         | Some adm \<Rightarrow>
             (case EnsureInstalled adm w of
                Some err \<Rightarrow> (Inl err, w, [EnsureInstalledCalled (Product desired)])
              | None \<Rightarrow>
                  (case ensureDesktop env desired w of
                     (Some err, w1, evs1) \<Rightarrow>
                       (Inl err, w1, EnsureInstalledCalled (Product desired) # evs1)
                   | (None, w1, evs1) \<Rightarrow>
                       (case applyReconcile env adm desired w1 of
                          (res, w2, evs2) \<Rightarrow>
                            (res, w2, EnsureInstalledCalled (Product desired) # evs1 @ evs2)))))"

section \<open>The fixture of cluster\_test.go\<close>

text \<open>
  The configuration of \<^verbatim>\<open>newFixture\<close>: the contexts \<^verbatim>\<open>microk8s\<close> and
  \<^verbatim>\<open>docker-desktop\<close>, visited in this order.
\<close>

definition fixtureConfig :: config where
  "fixtureConfig =
     \<lparr>CurrentContext = ''microk8s'',
      Contexts = [(''docker-desktop'', \<lparr>CtxCluster = ''docker-desktop''\<rparr>),
                  (''microk8s'', \<lparr>CtxCluster = ''microk8s-cluster''\<rparr>)]\<rparr>"

text \<open>
  An environment for the fixture in which a client is its server address, the cluster
  behind \<^verbatim>\<open>microk8s\<close> has the nodes \<^verbatim>\<open>node-1\<close> and \<^verbatim>\<open>node-2\<close>, and the node
  query of every other cluster fails.
\<close>

definition fixtureEnv :: "(string, string) env" where
  "fixtureEnv =
     \<lparr>ClientConfig = (\<lambda>cfg name.
         case map_of (Contexts cfg) name of
           None \<Rightarrow> Inl (Failure ''context not found'')
         | Some ct \<Rightarrow> Inr (''http://'' @ name @ ''.localhost/'')),
      NewForConfig = (\<lambda>r. Inr r),
      NodesList = (\<lambda>k.
         if k = ''http://microk8s.localhost/''
         then Inr [\<lparr>NodeName = ''node-1'', NodeCreationTimestamp = 1600000300\<rparr>,
                   \<lparr>NodeName = ''node-2'', NodeCreationTimestamp = 1600000100\<rparr>]
         else Inl (Failure ''connection refused'')),
      productFromContext = (\<lambda>ct.
         if CtxCluster ct = ''microk8s-cluster'' then ''microk8s'' else CtxCluster ct)\<rparr>"

text \<open>An environment in which no client can be built any more.\<close>

definition brokenEnv :: "(string, string) env" where
  "brokenEnv =
     \<lparr>ClientConfig = (\<lambda>cfg name. Inl (Failure ''no configuration'')),
      NewForConfig = (\<lambda>r. Inl (Failure ''no client'')),
      NodesList = (\<lambda>k. Inl (Failure ''connection refused'')),
      productFromContext = (\<lambda>ct. [])\<rparr>"

definition emptyConfig :: config where
  "emptyConfig = \<lparr>CurrentContext = [], Contexts = []\<rparr>"

text \<open>
  A cluster whose node list has a node without a creation timestamp before a node
  with one.
\<close>

definition zeroNodeEnv :: "(string, string) env" where
  "zeroNodeEnv =
     fixtureEnv\<lparr>NodesList := (\<lambda>k.
        Inr [\<lparr>NodeName = ''node-1'', NodeCreationTimestamp = 0\<rparr>,
             \<lparr>NodeName = ''node-2'', NodeCreationTimestamp = 7\<rparr>])\<rparr>"

definition emptyNodeEnv :: "(string, string) env" where
  "emptyNodeEnv = fixtureEnv\<lparr>NodesList := (\<lambda>k. Inr [])\<rparr>"

text \<open>
  Options of \<^verbatim>\<open>ctlptl get\<close> without an output flag and with one, and a rendering
  of durations in nanoseconds.
\<close>

definition tableOptions :: getOptions where
  "tableOptions =
     \<lparr>OutputFlagSpecifiedFn = Some False, StartTime = 1600000400, IgnoreNotFound = False,
      FieldSelector = []\<rparr>"

definition yamlOptions :: getOptions where
  "yamlOptions = tableOptions\<lparr>OutputFlagSpecifiedFn := Some True\<rparr>"

definition nanosDuration :: "int \<Rightarrow> string" where
  "nanosDuration d = showInt d @ ''ns''"

text \<open>The registry that \<^verbatim>\<open>fakeRegistryController.Apply\<close> returns for \<^verbatim>\<open>kind-registry\<close>.\<close>

definition fixtureRegistry :: registry where
  "fixtureRegistry =
     \<lparr>RegName = ''kind-registry'',
      RegStatus = \<lparr>RegCreationTimestamp = 0, HostPort = 5000, ContainerPort = 5000,
                   IPAddress = ''172.0.0.2'', ContainerID = ''fake-container-id'',
                   Networks = [''bridge'']\<rparr>\<rparr>"

text \<open>
  The fixture for \<^verbatim>\<open>Apply\<close>: the state is the fake adapter and the \<^verbatim>\<open>lastApply\<close>
  of the fake registry controller; the adapter of \<^verbatim>\<open>minikube\<close> is the fake adapter;
  a cluster exists when its context is recorded and the adapter has created it, and its
  running version is the faked server version.
\<close>

definition fixtureAdmin :: "(fakeAdmin \<times> registry option) admin" where
  "fixtureAdmin =
     \<lparr>EnsureInstalled = (\<lambda>w. fakeAdmin_EnsureInstalled (fst w)),
      Create = (\<lambda>cfg reg w. case fakeAdmin_Create cfg reg (fst w) of (err, a) \<Rightarrow> (err, (a, snd w))),
      Delete = (\<lambda>cfg w. case fakeAdmin_Delete cfg (fst w) of (err, a) \<Rightarrow> (err, (a, snd w))),
      LocalRegistryHostingOf = fakeAdmin_LocalRegistryHosting\<rparr>"

definition fixtureApplyEnv :: "(fakeAdmin \<times> registry option) applyEnv" where
  "fixtureApplyEnv =
     \<lparr>canonicalName = (\<lambda>p. if p = ''kind'' then ''kind-kind'' else p),
      admins = [''minikube'' \<mapsto> fixtureAdmin],
      isDesktop = (\<lambda>p. p = ''docker-desktop''),
      ensureMachine = (\<lambda>desired w. (None, w)),
      observe = (\<lambda>w name.
         case adminContexts (fst w) name of
           None \<Rightarrow> None
         | Some ct \<Rightarrow>
             (case created (fst w) of
                None \<Rightarrow> None
              | Some cl \<Rightarrow>
                  (case fakedServerVersion (fst w) of
                     None \<Rightarrow> Some (cl, [])
                   | Some v \<Rightarrow> Some (cl, v)))),
      registryApply = (\<lambda>r w.
         case fakeRegistryController_Apply r (snd w) of (res, la) \<Rightarrow> (res, (fst w, la))),
      readStatus = (\<lambda>w cl. cl)\<rparr>"

definition minikubeSpec :: "string \<Rightarrow> cluster" where
  "minikubeSpec version =
     \<lparr>TypeMeta = \<lparr>APIVersion = [], Kind = []\<rparr>, Name = [], Product = ''minikube'',
      Registry = [], KubernetesVersion = version, MinCPUs = 0, Status = zeroStatus\<rparr>"

text \<open>The state after \<^verbatim>\<open>Apply\<close> has created \<^verbatim>\<open>minikube\<close> at version v1.14.0.\<close>

definition minikubeWorld :: "fakeAdmin \<times> registry option" where
  "minikubeWorld =
     (\<lparr>created = Some ((minikubeSpec ''v1.14.0'')\<lparr>Name := ''minikube''\<rparr>),
       createdRegistry = None,
       deleted = None,
       adminContexts = [''minikube'' \<mapsto> \<lparr>CtxCluster = ''minikube''\<rparr>],
       adminClusters = [''minikube'' \<mapsto> ''http://minikube.localhost/''],
       fakedServerVersion = Some ''v1.14.0''\<rparr>,
      None)"

section \<open>The client cache\<close>

lemma client_fst_stable:
  "fst (client env (snd (client env c n)) m) = fst (client env c m)"
  by (auto simp: client_def split: option.splits sum.splits)

lemma client_hit: "clients c name = Some cl \<Longrightarrow> client env c name = (Inr cl, c)"
  by (simp add: client_def)

lemma clientCalls_keeps:
  "clients c n = Some k \<Longrightarrow> clients (clientCalls c steps) n = Some k"
proof (induction steps arbitrary: c)
  case Nil
  then show ?case by simp
next
  case (Cons st steps)
  obtain env cfg m where st: "st = (env, cfg, m)" by (cases st) auto
  have "clients (snd (client env (c\<lparr>config := cfg\<rparr>) m)) n = Some k"
    using Cons.prems by (auto simp: client_def split: option.splits sum.splits)
  then show ?case using Cons.IH st by simp
qed

text \<open>
  C8. When a call of \<^verbatim>\<open>client\<close> returns a client for a name, the client is in the
  cache under that name; if the name was not cached before, the client is the one just
  constructed from the configuration, and the cache is the old one with that entry
  added. After any run of later calls, under any configuration and with any loader and
  constructor (also ones that fail), a call with the same name returns that same client
  and leaves the controller as it is: nothing is constructed again and nothing is
  invalidated. An entry of the cache, once set, is still there with the same client
  after one call and after any run of calls of \<^verbatim>\<open>client\<close>.
\<close>

theorem client_caches_by_name:
  "(client env c name = (Inr cl, c1) \<longrightarrow>
      clients c1 name = Some cl \<and>
      (clients c name = None \<longrightarrow>
         (\<exists>r. ClientConfig env (config c) name = Inr r \<and> NewForConfig env r = Inr cl) \<and>
         c1 = c\<lparr>clients := (clients c)(name \<mapsto> cl)\<rparr>) \<and>
      client env' ((clientCalls c1 steps)\<lparr>config := cfg'\<rparr>) name
        = (Inr cl, (clientCalls c1 steps)\<lparr>config := cfg'\<rparr>)) \<and>
   (clients c n = Some k \<longrightarrow>
      clients (snd (client env c m)) n = Some k \<and> clients (clientCalls c steps) n = Some k)"
proof (intro conjI impI)
  assume a: "client env c name = (Inr cl, c1)"
  show c1: "clients c1 name = Some cl"
    using a by (auto simp: client_def split: option.splits sum.splits)
  show "client env' ((clientCalls c1 steps)\<lparr>config := cfg'\<rparr>) name
        = (Inr cl, (clientCalls c1 steps)\<lparr>config := cfg'\<rparr>)"
    using clientCalls_keeps[OF c1, of steps] by (simp add: client_hit)
  assume "clients c name = None"
  with a show "\<exists>r. ClientConfig env (config c) name = Inr r \<and> NewForConfig env r = Inr cl"
    by (auto simp: client_def split: option.splits sum.splits)
  from a \<open>clients c name = None\<close> show "c1 = c\<lparr>clients := (clients c)(name \<mapsto> cl)\<rparr>"
    by (auto simp: client_def split: option.splits sum.splits)
next
  assume k: "clients c n = Some k"
  then show "clients (snd (client env c m)) n = Some k"
    by (auto simp: client_def split: option.splits sum.splits)
  from k show "clients (clientCalls c steps) n = Some k" by (rule clientCalls_keeps)
qed

text \<open>
  The first call for \<^verbatim>\<open>microk8s\<close> on the fixture builds and caches the client; after
  the configuration is emptied and a call for another name has failed, with a loader
  that cannot build anything, the call for \<^verbatim>\<open>microk8s\<close> still returns it.
\<close>

theorem client_caches_by_name_witness:
  "client fixtureEnv (ControllerWithConfig fixtureConfig) ''microk8s'' =
     (Inr ''http://microk8s.localhost/'',
      \<lparr>config = fixtureConfig, clients = [''microk8s'' \<mapsto> ''http://microk8s.localhost/'']\<rparr>) \<and>
   fst (client brokenEnv
          ((clientCalls \<lparr>config = fixtureConfig, clients = [''microk8s'' \<mapsto> ''http://microk8s.localhost/'']\<rparr>
              [(brokenEnv, emptyConfig, ''docker-desktop'')])\<lparr>config := emptyConfig\<rparr>)
          ''microk8s'') = Inr ''http://microk8s.localhost/''"
proof -
  have first: "client fixtureEnv (ControllerWithConfig fixtureConfig) ''microk8s'' =
     (Inr ''http://microk8s.localhost/'',
      \<lparr>config = fixtureConfig, clients = [''microk8s'' \<mapsto> ''http://microk8s.localhost/'']\<rparr>)"
    by (simp add: client_def fixtureEnv_def ControllerWithConfig_def fixtureConfig_def)
  show ?thesis
    using first
      client_caches_by_name[where env = fixtureEnv and c = "ControllerWithConfig fixtureConfig"
        and name = "''microk8s''" and cl = "''http://microk8s.localhost/''"
        and ?c1.0 = "\<lparr>config = fixtureConfig, clients = [''microk8s'' \<mapsto> ''http://microk8s.localhost/'']\<rparr>"
        and env' = brokenEnv and steps = "[(brokenEnv, emptyConfig, ''docker-desktop'')]"
        and cfg' = emptyConfig]
    by simp
qed

section \<open>Listing the recorded contexts\<close>

lemma populated_cong:
  "fst (client env c (Name cl)) = fst (client env c0 (Name cl)) \<Longrightarrow> populated env c cl = populated env c0 cl"
  by (auto simp: populated_def populateCluster_def split: prod.splits sum.splits)

lemma populate_ctrl: "snd (snd (populateCluster env c cl)) = snd (client env c (Name cl))"
  by (simp add: populateCluster_def split: prod.splits sum.splits)

lemma populate_client_stable:
  "populateCluster env c cl = (err, cl', c') \<Longrightarrow> fst (client env c' m) = fst (client env c m)"
  using populate_ctrl[of env c cl] client_fst_stable[of env c "Name cl" m] by simp

lemma populated_Name: "Name (snd (populated env c cl)) = Name cl"
  by (simp add: populated_def populateCluster_def split: prod.splits sum.splits)

lemma newCluster_Name: "Name (newCluster env e) = fst e"
  by (simp add: newCluster_def)

text \<open>
  Every round of the loop populates its entry as a call on the controller that \<^verbatim>\<open>List\<close>
  received would: the rounds before it only add clients that such a call builds too.
\<close>

lemma listLoop_char:
  "(\<And>m. fst (client env c m) = fst (client env c0 m)) \<Longrightarrow>
   fst (listLoop env ctxs (res, w, c)) = res @ map (\<lambda>e. snd (populated env c0 (newCluster env e))) ctxs"
proof (induction ctxs arbitrary: res w c)
  case Nil
  then show ?case by simp
next
  case (Cons e ctxs)
  obtain err cl c' where p: "populateCluster env c (newCluster env e) = (err, cl, c')"
    by (cases "populateCluster env c (newCluster env e)") auto
  have st: "\<And>m. fst (client env c' m) = fst (client env c0 m)"
    using populate_client_stable[OF p] Cons.prems by simp
  have "populated env c (newCluster env e) = populated env c0 (newCluster env e)"
    by (rule populated_cong) (simp add: Cons.prems)
  then have cl: "snd (populated env c0 (newCluster env e)) = cl"
    using p by (cases "populateCluster env c0 (newCluster env e)") (simp add: populated_def)
  show ?case
    using p cl Cons.IH[OF st] by (cases err) simp_all
qed

lemma List_items:
  "fst (List env c) = map (\<lambda>e. snd (populated env c (newCluster env e))) (Contexts (config c))"
proof -
  have "fst (List env c) = fst (listLoop env (Contexts (config c)) ([], [], c))"
    by (cases "listLoop env (Contexts (config c)) ([], [], c)") (simp add: List_def)
  then show ?thesis
    using listLoop_char[of env c c "Contexts (config c)" "[]" "[]"] by simp
qed

lemma List_names: "map Name (fst (List env c)) = map fst (Contexts (config c))"
  by (simp add: List_items populated_Name newCluster_def comp_def)

lemma fixture_List:
  "fst (List fixtureEnv (ControllerWithConfig fixtureConfig)) =
     [newCluster fixtureEnv (''docker-desktop'', \<lparr>CtxCluster = ''docker-desktop''\<rparr>),
      (newCluster fixtureEnv (''microk8s'', \<lparr>CtxCluster = ''microk8s-cluster''\<rparr>))
        \<lparr>Status := zeroStatus\<lparr>CreationTimestamp := 1600000100\<rparr>\<rparr>]"
  by (simp add: List_def populateCluster_def client_def newCluster_def fixtureEnv_def
      ControllerWithConfig_def fixtureConfig_def minNodeTime_def minTimeStep_def zeroTime_def
      IsZero_def Before_def)

text \<open>
  C1. For every configuration of recorded contexts, every controller and every
  behaviour of the loader, the constructor and the node query, \<^verbatim>\<open>List\<close> returns a
  \<^verbatim>\<open>nil\<close> error and one entry per recorded context, in the order of the visit and
  under the context's name. The entry of a context whose status population fails (the
  client cannot be built, or the node query fails) is the freshly synthesized cluster,
  with the zero status; the entry of every other context is the cluster as
  \<^verbatim>\<open>populateCluster\<close> populated it.
\<close>

theorem List_isolates_failures:
  "fst (snd (List env c)) = None \<and>
   length (fst (List env c)) = length (Contexts (config c)) \<and>
   map Name (fst (List env c)) = map fst (Contexts (config c)) \<and>
   (\<forall>i < length (Contexts (config c)).
      (case populateCluster env c (newCluster env (Contexts (config c) ! i)) of
         (Some err, _, _) \<Rightarrow>
            fst (List env c) ! i = newCluster env (Contexts (config c) ! i) \<and>
            Status (fst (List env c) ! i) = zeroStatus
       | (None, cl, _) \<Rightarrow> fst (List env c) ! i = cl))"
proof (intro conjI allI impI)
  show "fst (snd (List env c)) = None"
    by (simp add: List_def split: prod.splits)
  show "length (fst (List env c)) = length (Contexts (config c))"
    by (simp add: List_items)
  show "map Name (fst (List env c)) = map fst (Contexts (config c))"
    by (rule List_names)
next
  fix i assume i: "i < length (Contexts (config c))"
  let ?e = "Contexts (config c) ! i"
  have nth: "fst (List env c) ! i = snd (populated env c (newCluster env ?e))"
    using i by (simp add: List_items)
  show "case populateCluster env c (newCluster env ?e) of
         (Some err, _, _) \<Rightarrow>
            fst (List env c) ! i = newCluster env ?e \<and>
            Status (fst (List env c) ! i) = zeroStatus
       | (None, cl, _) \<Rightarrow> fst (List env c) ! i = cl"
    unfolding nth
    by (auto simp: populated_def populateCluster_def newCluster_def split: prod.splits sum.splits option.splits)
qed

text \<open>
  On the fixture the node query of \<^verbatim>\<open>docker-desktop\<close> fails and that of \<^verbatim>\<open>microk8s\<close>
  succeeds: both entries are returned, with a \<^verbatim>\<open>nil\<close> error, the first with the zero
  status and the second with the creation time of its older node.
\<close>

theorem List_isolates_failures_witness:
  "fst (snd (List fixtureEnv (ControllerWithConfig fixtureConfig))) = None \<and>
   map Name (fst (List fixtureEnv (ControllerWithConfig fixtureConfig))) = [''docker-desktop'', ''microk8s''] \<and>
   Status (fst (List fixtureEnv (ControllerWithConfig fixtureConfig)) ! 0) = zeroStatus \<and>
   CreationTimestamp (Status (fst (List fixtureEnv (ControllerWithConfig fixtureConfig)) ! 1)) = 1600000100"
proof -
  let ?c = "ControllerWithConfig fixtureConfig :: string controller"
  have ctx: "Contexts (config ?c) =
      [(''docker-desktop'', \<lparr>CtxCluster = ''docker-desktop''\<rparr>),
       (''microk8s'', \<lparr>CtxCluster = ''microk8s-cluster''\<rparr>)]"
    by (simp add: ControllerWithConfig_def fixtureConfig_def)
  have p0: "populateCluster fixtureEnv ?c (newCluster fixtureEnv (Contexts (config ?c) ! 0)) =
      (Some (Failure ''connection refused''), newCluster fixtureEnv (Contexts (config ?c) ! 0),
       ?c\<lparr>clients := [''docker-desktop'' \<mapsto> ''http://docker-desktop.localhost/'']\<rparr>)"
    by (simp add: ctx) (simp add: populateCluster_def client_def newCluster_def fixtureEnv_def
        ControllerWithConfig_def fixtureConfig_def)
  have p1: "\<exists>c'. populateCluster fixtureEnv ?c (newCluster fixtureEnv (Contexts (config ?c) ! 1)) =
      (None, (newCluster fixtureEnv (Contexts (config ?c) ! 1))
                \<lparr>Status := zeroStatus\<lparr>CreationTimestamp := 1600000100\<rparr>\<rparr>, c')"
    by (simp add: ctx) (simp add: populateCluster_def client_def newCluster_def fixtureEnv_def
        ControllerWithConfig_def fixtureConfig_def minNodeTime_def minTimeStep_def zeroTime_def
        IsZero_def Before_def)
  have len: "(0::nat) < length (Contexts (config ?c))" "(1::nat) < length (Contexts (config ?c))"
    by (simp_all add: ctx)
  note L = List_isolates_failures[of fixtureEnv ?c]
  note ix = L[THEN conjunct2, THEN conjunct2, THEN conjunct2]
  have s0: "Status (fst (List fixtureEnv ?c) ! 0) = zeroStatus"
    using ix[rule_format, OF len(1)] p0 by (simp add: newCluster_def)
  have s1: "CreationTimestamp (Status (fst (List fixtureEnv ?c) ! 1)) = 1600000100"
    using ix[rule_format, OF len(2)] p1 by auto
  show ?thesis
    using L[THEN conjunct1] L[THEN conjunct2, THEN conjunct2, THEN conjunct1] s0 s1
    by (simp add: ctx)
qed

section \<open>The creation timestamp of a cluster\<close>

lemma Min_insert_min:
  fixes a t :: int
  assumes "finite S"
  shows "Min (insert (min a t) S) = Min (insert t (insert a S))"
proof (cases "S = {}")
  case True
  then show ?thesis by (simp add: min.commute)
next
  case False
  then show ?thesis
    using assms by (simp add: min.assoc min.left_commute min.commute)
qed

text \<open>
  The loop over nodes that all have a creation timestamp: started at the zero time it
  yields the least timestamp, started at another time the least of that time and the
  timestamps.
\<close>

lemma minTime_fold:
  "\<forall>n \<in> set nodes. NodeCreationTimestamp n \<noteq> 0 \<Longrightarrow>
   foldl minTimeStep t nodes =
     (if t = 0 then (if nodes = [] then 0 else Min (NodeCreationTimestamp ` set nodes))
      else Min (insert t (NodeCreationTimestamp ` set nodes)))"
proof (induction nodes arbitrary: t)
  case Nil
  then show ?case by simp
next
  case (Cons n nodes)
  let ?a = "NodeCreationTimestamp n"
  let ?S = "NodeCreationTimestamp ` set nodes"
  have nz: "?a \<noteq> 0" using Cons.prems by simp
  have rest: "\<forall>n \<in> set nodes. NodeCreationTimestamp n \<noteq> 0" using Cons.prems by simp
  show ?case
  proof (cases "t = 0")
    case True
    then have step: "minTimeStep t n = ?a"
      by (simp add: minTimeStep_def IsZero_def Let_def)
    show ?thesis
      using Cons.IH[OF rest, of ?a] nz True step by simp
  next
    case False
    then have step: "minTimeStep t n = min ?a t"
      by (auto simp: minTimeStep_def IsZero_def Before_def Let_def min_def)
    have m: "min ?a t \<noteq> 0" using nz False by (simp add: min_def)
    have "foldl minTimeStep t (n # nodes) = Min (insert (min ?a t) ?S)"
      using Cons.IH[OF rest, of "min ?a t"] m step by simp
    also have "\<dots> = Min (insert t (insert ?a ?S))"
      by (rule Min_insert_min) simp
    finally show ?thesis using False by simp
  qed
qed

lemma fixture_client:
  "client (fixtureEnv\<lparr>NodesList := nl\<rparr>) (ControllerWithConfig fixtureConfig) ''microk8s'' =
     (Inr ''http://microk8s.localhost/'',
      \<lparr>config = fixtureConfig, clients = [''microk8s'' \<mapsto> ''http://microk8s.localhost/'']\<rparr>)"
  by (simp add: client_def fixtureEnv_def ControllerWithConfig_def fixtureConfig_def)

text \<open>
  C7 as stated fails: the zero time is also what the loop reads as "no minimum yet". The
  node query of \<^verbatim>\<open>microk8s\<close> succeeds with a node whose creation timestamp is the
  zero time followed by a node created at time 7; the least creation timestamp over
  the nodes is the zero time, and \<^verbatim>\<open>populateCluster\<close> sets the status to 7.
\<close>

theorem populateCluster_min_counterexample:
  "fst (client zeroNodeEnv (ControllerWithConfig fixtureConfig)
          (Name (newCluster zeroNodeEnv (''microk8s'', \<lparr>CtxCluster = ''microk8s-cluster''\<rparr>))))
     = Inr ''http://microk8s.localhost/'' \<and>
   NodesList zeroNodeEnv ''http://microk8s.localhost/'' =
     Inr [\<lparr>NodeName = ''node-1'', NodeCreationTimestamp = 0\<rparr>,
          \<lparr>NodeName = ''node-2'', NodeCreationTimestamp = 7\<rparr>] \<and>
   Min (NodeCreationTimestamp ` set [\<lparr>NodeName = ''node-1'', NodeCreationTimestamp = 0\<rparr>,
                                     \<lparr>NodeName = ''node-2'', NodeCreationTimestamp = 7\<rparr>]) = 0 \<and>
   CreationTimestamp (Status (fst (snd (populateCluster zeroNodeEnv (ControllerWithConfig fixtureConfig)
      (newCluster zeroNodeEnv (''microk8s'', \<lparr>CtxCluster = ''microk8s-cluster''\<rparr>)))))) = 7"
  by (simp add: zeroNodeEnv_def fixture_client populateCluster_def newCluster_def
      minNodeTime_def minTimeStep_def zeroTime_def IsZero_def Before_def)

text \<open>
  C7, amended. For every cluster whose node list is non-empty and has no node with the
  zero creation timestamp, \<^verbatim>\<open>populateCluster\<close> returns no error and sets
  \<^verbatim>\<open>Status.CreationTimestamp\<close> to the least creation timestamp over the nodes of the
  node query, leaving the rest of the cluster as it was. When the client lookup fails,
  or the node query fails, it returns that error unchanged and leaves the cluster,
  and so its timestamp, as it was.
\<close>

theorem populateCluster_min_nonzero:
  "(client env c (Name cl) = (Inr k, c') \<and> NodesList env k = Inr nodes \<and> nodes \<noteq> [] \<and>
      (\<forall>n \<in> set nodes. \<not> IsZero (NodeCreationTimestamp n)) \<longrightarrow>
      populateCluster env c cl =
        (None, cl\<lparr>Status := (Status cl)\<lparr>CreationTimestamp := Min (NodeCreationTimestamp ` set nodes)\<rparr>\<rparr>, c')) \<and>
   (client env c (Name cl) = (Inl err, c') \<longrightarrow> populateCluster env c cl = (Some err, cl, c')) \<and>
   (client env c (Name cl) = (Inr k, c') \<and> NodesList env k = Inl err \<longrightarrow>
      populateCluster env c cl = (Some err, cl, c'))"
proof (intro conjI impI)
  assume a: "client env c (Name cl) = (Inr k, c') \<and> NodesList env k = Inr nodes \<and> nodes \<noteq> [] \<and>
      (\<forall>n \<in> set nodes. \<not> IsZero (NodeCreationTimestamp n))"
  then have "minNodeTime nodes = Min (NodeCreationTimestamp ` set nodes)"
    using minTime_fold[of nodes 0] by (simp add: minNodeTime_def zeroTime_def IsZero_def)
  with a show "populateCluster env c cl =
        (None, cl\<lparr>Status := (Status cl)\<lparr>CreationTimestamp := Min (NodeCreationTimestamp ` set nodes)\<rparr>\<rparr>, c')"
    by (simp add: populateCluster_def)
next
  assume "client env c (Name cl) = (Inl err, c')"
  then show "populateCluster env c cl = (Some err, cl, c')"
    by (simp add: populateCluster_def)
next
  assume "client env c (Name cl) = (Inr k, c') \<and> NodesList env k = Inl err"
  then show "populateCluster env c cl = (Some err, cl, c')"
    by (simp add: populateCluster_def)
qed

text \<open>
  On the fixture \<^verbatim>\<open>microk8s\<close> has two nodes, the second the older one: the status gets
  the creation time of the second. With a loader that fails, the error of the loader
  is returned.
\<close>

theorem populateCluster_min_nonzero_witness:
  "client fixtureEnv (ControllerWithConfig fixtureConfig)
      (Name (newCluster fixtureEnv (''microk8s'', \<lparr>CtxCluster = ''microk8s-cluster''\<rparr>)))
     = (Inr ''http://microk8s.localhost/'',
        \<lparr>config = fixtureConfig, clients = [''microk8s'' \<mapsto> ''http://microk8s.localhost/'']\<rparr>) \<and>
   NodesList fixtureEnv ''http://microk8s.localhost/'' =
     Inr [\<lparr>NodeName = ''node-1'', NodeCreationTimestamp = 1600000300\<rparr>,
          \<lparr>NodeName = ''node-2'', NodeCreationTimestamp = 1600000100\<rparr>] \<and>
   CreationTimestamp (Status (fst (snd (populateCluster fixtureEnv (ControllerWithConfig fixtureConfig)
      (newCluster fixtureEnv (''microk8s'', \<lparr>CtxCluster = ''microk8s-cluster''\<rparr>)))))) = 1600000100 \<and>
   fst (populateCluster brokenEnv (ControllerWithConfig fixtureConfig)
      (newCluster fixtureEnv (''microk8s'', \<lparr>CtxCluster = ''microk8s-cluster''\<rparr>)))
     = Some (Failure ''no configuration'')"
proof -
  let ?cl = "newCluster fixtureEnv (''microk8s'', \<lparr>CtxCluster = ''microk8s-cluster''\<rparr>)"
  let ?nodes = "[\<lparr>NodeName = ''node-1'', NodeCreationTimestamp = 1600000300\<rparr>,
          \<lparr>NodeName = ''node-2'', NodeCreationTimestamp = 1600000100\<rparr>]"
  let ?c1 = "\<lparr>config = fixtureConfig, clients = [''microk8s'' \<mapsto> ''http://microk8s.localhost/'']\<rparr>"
  have n: "Name ?cl = ''microk8s''" by (simp add: newCluster_def)
  have c: "client fixtureEnv (ControllerWithConfig fixtureConfig) (Name ?cl) =
      (Inr ''http://microk8s.localhost/'', ?c1)"
    using fixture_client[of "NodesList fixtureEnv"] by (simp add: n)
  have q: "NodesList fixtureEnv ''http://microk8s.localhost/'' = Inr ?nodes"
    by (simp add: fixtureEnv_def)
  have nz: "?nodes \<noteq> [] \<and> (\<forall>n \<in> set ?nodes. \<not> IsZero (NodeCreationTimestamp n))"
    by (simp add: IsZero_def)
  have b: "client brokenEnv (ControllerWithConfig fixtureConfig) (Name ?cl) =
      (Inl (Failure ''no configuration''), ControllerWithConfig fixtureConfig)"
    by (simp add: n client_def brokenEnv_def ControllerWithConfig_def)
  have ok: "populateCluster fixtureEnv (ControllerWithConfig fixtureConfig) ?cl =
      (None, ?cl\<lparr>Status := (Status ?cl)\<lparr>CreationTimestamp := Min (NodeCreationTimestamp ` set ?nodes)\<rparr>\<rparr>, ?c1)"
    using populateCluster_min_nonzero[where env = fixtureEnv and c = "ControllerWithConfig fixtureConfig"
        and cl = ?cl and k = "''http://microk8s.localhost/''" and c' = ?c1 and nodes = ?nodes,
        THEN conjunct1] c q nz
    by blast
  have bad: "populateCluster brokenEnv (ControllerWithConfig fixtureConfig) ?cl =
      (Some (Failure ''no configuration''), ?cl, ControllerWithConfig fixtureConfig)"
    using populateCluster_min_nonzero[where env = brokenEnv and c = "ControllerWithConfig fixtureConfig"
        and cl = ?cl and err = "Failure ''no configuration''" and c' = "ControllerWithConfig fixtureConfig",
        THEN conjunct2, THEN conjunct1] b
    by blast
  show ?thesis
    using c q by (simp add: ok bad)
qed

section \<open>The table of clusters\<close>

text \<open>
  C9. For every cluster whose node list is empty, \<^verbatim>\<open>populateCluster\<close> returns no error
  and leaves \<^verbatim>\<open>Status.CreationTimestamp\<close> the zero time, and the table of that cluster
  has \<^verbatim>\<open>unknown\<close> in its fourth cell. For every cluster whose creation timestamp is the
  zero time, whatever the rendering of durations, the fourth cell of its row is
  \<^verbatim>\<open>unknown\<close>; the rows of the table are the rows of the clusters, in order, and the
  fourth column of the table is \<^verbatim>\<open>Age\<close>.
\<close>

theorem empty_nodes_age_unknown:
  "(client env c (Name cl) = (Inr k, c') \<and> NodesList env k = Inr [] \<longrightarrow>
      populateCluster env c cl = (None, cl\<lparr>Status := (Status cl)\<lparr>CreationTimestamp := zeroTime\<rparr>\<rparr>, c') \<and>
      map (\<lambda>r. Cells r ! 3)
        (Rows (clustersAsTable shd opts [cl\<lparr>Status := (Status cl)\<lparr>CreationTimestamp := zeroTime\<rparr>\<rparr>]))
        = [''unknown'']) \<and>
   (IsZero (CreationTimestamp (Status x)) \<longrightarrow> Cells (clusterRow shd opts x) ! 3 = ''unknown'') \<and>
   Rows (clustersAsTable shd opts xs) = map (clusterRow shd opts) xs \<and>
   ColumnName (ColumnDefinitions (clustersAsTable shd opts xs) ! 3) = ''Age''"
  by (simp add: populateCluster_def minNodeTime_def zeroTime_def clustersAsTable_def
      clusterRow_def IsZero_def Let_def)

text \<open>The fixture with a node query that returns no node for \<^verbatim>\<open>microk8s\<close>.\<close>

theorem empty_nodes_age_unknown_witness:
  "client emptyNodeEnv (ControllerWithConfig fixtureConfig) ''microk8s'' =
     (Inr ''http://microk8s.localhost/'',
      \<lparr>config = fixtureConfig, clients = [''microk8s'' \<mapsto> ''http://microk8s.localhost/'']\<rparr>) \<and>
   NodesList emptyNodeEnv ''http://microk8s.localhost/'' = Inr [] \<and>
   populateCluster emptyNodeEnv (ControllerWithConfig fixtureConfig)
      (newCluster emptyNodeEnv (''microk8s'', \<lparr>CtxCluster = ''microk8s-cluster''\<rparr>)) =
     (None, newCluster emptyNodeEnv (''microk8s'', \<lparr>CtxCluster = ''microk8s-cluster''\<rparr>),
      \<lparr>config = fixtureConfig, clients = [''microk8s'' \<mapsto> ''http://microk8s.localhost/'']\<rparr>) \<and>
   map (\<lambda>r. Cells r ! 3)
     (Rows (clustersAsTable nanosDuration tableOptions
        [newCluster emptyNodeEnv (''microk8s'', \<lparr>CtxCluster = ''microk8s-cluster''\<rparr>)])) = [''unknown'']"
proof -
  let ?cl = "newCluster emptyNodeEnv (''microk8s'', \<lparr>CtxCluster = ''microk8s-cluster''\<rparr>)"
  let ?c1 = "\<lparr>config = fixtureConfig, clients = [''microk8s'' \<mapsto> ''http://microk8s.localhost/'']\<rparr>"
  have c0: "client emptyNodeEnv (ControllerWithConfig fixtureConfig) ''microk8s'' =
      (Inr ''http://microk8s.localhost/'', ?c1)"
    by (simp add: emptyNodeEnv_def fixture_client)
  then have c: "client emptyNodeEnv (ControllerWithConfig fixtureConfig) (Name ?cl) =
      (Inr ''http://microk8s.localhost/'', ?c1)"
    by (simp add: newCluster_Name)
  have q: "NodesList emptyNodeEnv ''http://microk8s.localhost/'' = Inr []"
    by (simp add: emptyNodeEnv_def)
  have same: "?cl\<lparr>Status := (Status ?cl)\<lparr>CreationTimestamp := zeroTime\<rparr>\<rparr> = ?cl"
    by (simp add: newCluster_def zeroStatus_def)
  note T = empty_nodes_age_unknown[where env = emptyNodeEnv and c = "ControllerWithConfig fixtureConfig"
      and cl = ?cl and k = "''http://microk8s.localhost/''" and c' = ?c1
      and shd = nanosDuration and opts = tableOptions, THEN conjunct1, THEN mp, OF conjI[OF c q]]
  show ?thesis
    using c0 q T by (simp only: same simp_thms)
qed

text \<open>
  C10 as stated fails for a registry: without an output flag a \<^verbatim>\<open>Registry\<close>, which is
  neither a \<^verbatim>\<open>Cluster\<close> nor a \<^verbatim>\<open>ClusterList\<close>, is not returned unchanged but
  replaced by the table of registries.
\<close>

theorem transformForOutput_registry_counterexample:
  "\<not> OutputFlagSpecified tableOptions \<and>
   transformForOutput nanosDuration tableOptions (RegistryObj fixtureRegistry) \<noteq> RegistryObj fixtureRegistry \<and>
   transformForOutput nanosDuration tableOptions (RegistryObj fixtureRegistry) =
     TableObj \<lparr>TableTypeMeta = \<lparr>APIVersion = ''metav1.k8s.io'', Kind = ''Table''\<rparr>,
               ColumnDefinitions =
                 [\<lparr>ColumnName = ''Name'', ColumnType = ''string''\<rparr>,
                  \<lparr>ColumnName = ''Host Address'', ColumnType = ''int''\<rparr>,
                  \<lparr>ColumnName = ''Container Address'', ColumnType = ''string''\<rparr>,
                  \<lparr>ColumnName = ''Age'', ColumnType = ''string''\<rparr>],
               Rows = [\<lparr>Cells = [''kind-registry'', ''localhost:5000'', ''172.0.0.2:5000'', ''unknown'']\<rparr>]\<rparr>"
proof -
  have five: "showInt 5000 = ''5000''"
    by (simp add: showInt_def showNat.simps)
  show ?thesis
    by (simp add: transformForOutput_def OutputFlagSpecified_def tableOptions_def
        registriesAsTable_def registryRow_def fixtureRegistry_def IsZero_def five)
qed

text \<open>
  C10, amended. For every object, when an output flag is specified
  \<^verbatim>\<open>transformForOutput\<close> returns the object unchanged. When no output flag is
  specified, a \<^verbatim>\<open>Cluster\<close> or a \<^verbatim>\<open>ClusterList\<close> is replaced by the table of its
  clusters, which has exactly the columns Current, Name, Product, Age, Registry and one
  row per cluster; a \<^verbatim>\<open>Registry\<close> or a \<^verbatim>\<open>RegistryList\<close> is replaced by the table of
  its registries, which has exactly the columns Name, Host Address, Container Address,
  Age and one row per registry; an object of any other type is returned unchanged.
\<close>

theorem transformForOutput_tables:
  "(OutputFlagSpecified opts \<longrightarrow> transformForOutput shd opts obj = obj) \<and>
   (\<not> OutputFlagSpecified opts \<longrightarrow>
      transformForOutput shd opts (ClusterObj r) = TableObj (clustersAsTable shd opts [r]) \<and>
      transformForOutput shd opts (ClusterListObj cls) = TableObj (clustersAsTable shd opts cls) \<and>
      transformForOutput shd opts (RegistryObj g) = TableObj (registriesAsTable shd opts [g]) \<and>
      transformForOutput shd opts (RegistryListObj rs) = TableObj (registriesAsTable shd opts rs) \<and>
      transformForOutput shd opts (TableObj t) = TableObj t \<and>
      transformForOutput shd opts (OtherObj kind) = OtherObj kind) \<and>
   map ColumnName (ColumnDefinitions (clustersAsTable shd opts cls)) =
     [''Current'', ''Name'', ''Product'', ''Age'', ''Registry''] \<and>
   length (Rows (clustersAsTable shd opts cls)) = length cls \<and>
   map ColumnName (ColumnDefinitions (registriesAsTable shd opts rs)) =
     [''Name'', ''Host Address'', ''Container Address'', ''Age''] \<and>
   length (Rows (registriesAsTable shd opts rs)) = length rs"
  by (simp add: transformForOutput_def clustersAsTable_def registriesAsTable_def)

text \<open>
  The list of the fixture's clusters: with an output flag it is returned as it is,
  without one it becomes the table of two rows.
\<close>

theorem transformForOutput_tables_witness:
  "\<not> OutputFlagSpecified tableOptions \<and> OutputFlagSpecified yamlOptions \<and>
   transformForOutput nanosDuration yamlOptions
      (ClusterListObj (fst (List fixtureEnv (ControllerWithConfig fixtureConfig)))) =
     ClusterListObj (fst (List fixtureEnv (ControllerWithConfig fixtureConfig))) \<and>
   transformForOutput nanosDuration tableOptions
      (ClusterListObj (fst (List fixtureEnv (ControllerWithConfig fixtureConfig)))) =
     TableObj \<lparr>TableTypeMeta = \<lparr>APIVersion = ''metav1.k8s.io'', Kind = ''Table''\<rparr>,
               ColumnDefinitions =
                 [\<lparr>ColumnName = ''Current'', ColumnType = ''string''\<rparr>,
                  \<lparr>ColumnName = ''Name'', ColumnType = ''string''\<rparr>,
                  \<lparr>ColumnName = ''Product'', ColumnType = ''string''\<rparr>,
                  \<lparr>ColumnName = ''Age'', ColumnType = ''string''\<rparr>,
                  \<lparr>ColumnName = ''Registry'', ColumnType = ''string''\<rparr>],
               Rows = [\<lparr>Cells = [[], ''docker-desktop'', ''docker-desktop'', ''unknown'', ''none'']\<rparr>,
                       \<lparr>Cells = [[], ''microk8s'', ''microk8s'', ''300ns'', ''none'']\<rparr>]\<rparr>"
proof -
  let ?items = "fst (List fixtureEnv (ControllerWithConfig fixtureConfig))"
  have t: "\<not> OutputFlagSpecified tableOptions"
    by (simp add: OutputFlagSpecified_def tableOptions_def)
  have y: "OutputFlagSpecified yamlOptions"
    by (simp add: OutputFlagSpecified_def yamlOptions_def tableOptions_def)
  have age: "nanosDuration (Sub 1600000400 1600000100) = ''300ns''"
    by (simp add: nanosDuration_def Sub_def showInt_def showNat.simps)
  note id = transformForOutput_tables[where opts = yamlOptions and shd = nanosDuration
      and obj = "ClusterListObj ?items", THEN conjunct1, THEN mp, OF y]
  note tab = transformForOutput_tables[where opts = tableOptions and shd = nanosDuration
      and cls = ?items, THEN conjunct2, THEN conjunct1, THEN mp, OF t, THEN conjunct2, THEN conjunct1]
  have rows: "clustersAsTable nanosDuration tableOptions ?items =
     \<lparr>TableTypeMeta = \<lparr>APIVersion = ''metav1.k8s.io'', Kind = ''Table''\<rparr>,
               ColumnDefinitions =
                 [\<lparr>ColumnName = ''Current'', ColumnType = ''string''\<rparr>,
                  \<lparr>ColumnName = ''Name'', ColumnType = ''string''\<rparr>,
                  \<lparr>ColumnName = ''Product'', ColumnType = ''string''\<rparr>,
                  \<lparr>ColumnName = ''Age'', ColumnType = ''string''\<rparr>,
                  \<lparr>ColumnName = ''Registry'', ColumnType = ''string''\<rparr>],
               Rows = [\<lparr>Cells = [[], ''docker-desktop'', ''docker-desktop'', ''unknown'', ''none'']\<rparr>,
                       \<lparr>Cells = [[], ''microk8s'', ''microk8s'', ''300ns'', ''none'']\<rparr>]\<rparr>"
    by (simp only: fixture_List)
      (simp add: clustersAsTable_def clusterRow_def newCluster_def fixtureEnv_def
        zeroStatus_def zeroTime_def IsZero_def tableOptions_def age)
  show ?thesis
    using t y id tab by (simp only: rows simp_thms)
qed

section \<open>The settings of the fake Docker Desktop client\<close>

text \<open>
  C3 as stated fails on the \<^verbatim>\<open>nil\<close> map, which is what \<^verbatim>\<open>settings\<close> returns on
  the client of the fixture before \<^verbatim>\<open>start\<close>: the read finds no \<^verbatim>\<open>cpu\<close>, and the
  assignment \<^verbatim>\<open>settings["cpu"] = desired\<close> panics, so nothing is set and no write is
  signalled. It fails as well on a map whose \<^verbatim>\<open>cpu\<close> entry is not an \<^verbatim>\<open>int\<close>,
  where the type assertion panics.
\<close>

theorem ensureMinCPU_nil_map_counterexample:
  "fakeD4MClient_settings fixtureD4M = None \<and>
   ensureMinCPU (fakeD4MClient_settings fixtureD4M) 3 = Inl NilMapAssignment \<and>
   ensureMinCPU (Some [''cpu'' \<mapsto> VString ''four'']) 3 = Inl TypeAssertion"
  by (simp add: fakeD4MClient_settings_def fixtureD4M_def ensureMinCPU_def mapIndex_def mapAssign_def)

text \<open>
  C3, amended. For every settings map that is not \<^verbatim>\<open>nil\<close> and keeps the schema
  (\<^verbatim>\<open>cpu\<close>, when present, is an \<^verbatim>\<open>int\<close>) and every desired CPU count: when the
  current \<^verbatim>\<open>cpu\<close> value is greater than or equal to the desired one,
  \<^verbatim>\<open>ensureMinCPU\<close> returns the settings unchanged and signals no write; otherwise
  (the value is lower, or there is none) it sets \<^verbatim>\<open>cpu\<close> to exactly the desired
  value, changes no other entry and signals a write. On such a map it always returns,
  and the \<^verbatim>\<open>cpu\<close> value after the call is never lower than the one before.
\<close>

theorem ensureMinCPU_never_lowers:
  assumes "cpuTyped m"
  shows "(\<forall>cpu. m ''cpu'' = Some (VInt cpu) \<and> desired \<le> cpu \<longrightarrow>
            ensureMinCPU (Some m) desired = Inr (Some m, False)) \<and>
         ((\<forall>cpu. m ''cpu'' = Some (VInt cpu) \<longrightarrow> cpu < desired) \<longrightarrow>
            ensureMinCPU (Some m) desired = Inr (Some (m(''cpu'' \<mapsto> VInt desired)), True)) \<and>
         (\<exists>m' w. ensureMinCPU (Some m) desired = Inr (Some m', w) \<and>
            (\<forall>cpu. m ''cpu'' = Some (VInt cpu) \<longrightarrow> (\<exists>cpu'. m' ''cpu'' = Some (VInt cpu') \<and> cpu \<le> cpu')))"
  using assms
  by (cases "m ''cpu''")
    (auto simp: ensureMinCPU_def mapIndex_def mapAssign_def cpuTyped_def split: val.splits)

text \<open>
  Current 3 and desired 1: no write, and the value remains 3. The settings that
  \<^verbatim>\<open>start\<close> builds on the fixture have 1; desired 3 gives a write to 3.
\<close>

theorem ensureMinCPU_never_lowers_witness:
  "cpuTyped [''cpu'' \<mapsto> VInt 3] \<and>
   ensureMinCPU (Some [''cpu'' \<mapsto> VInt 3]) 1 = Inr (Some [''cpu'' \<mapsto> VInt 3], False) \<and>
   fakeD4MClient_settings (fakeD4MClient_start fixtureD4M) = Some [''cpu'' \<mapsto> VInt 1] \<and>
   cpuTyped [''cpu'' \<mapsto> VInt 1] \<and>
   ensureMinCPU (fakeD4MClient_settings (fakeD4MClient_start fixtureD4M)) 3 =
     Inr (Some [''cpu'' \<mapsto> VInt 3], True)"
proof -
  have t3: "cpuTyped [''cpu'' \<mapsto> VInt 3]" by (simp add: cpuTyped_def)
  have t1: "cpuTyped [''cpu'' \<mapsto> VInt 1]" by (simp add: cpuTyped_def)
  have st: "fakeD4MClient_settings (fakeD4MClient_start fixtureD4M) = Some [''cpu'' \<mapsto> VInt 1]"
    by (simp add: fakeD4MClient_settings_def fakeD4MClient_start_def fixtureD4M_def)
  show ?thesis
    using t3 t1 ensureMinCPU_never_lowers[OF t3, of 1] ensureMinCPU_never_lowers[OF t1, of 3]
    by (simp add: st)
qed

text \<open>
  C4 as stated fails on the \<^verbatim>\<open>nil\<close> map, which is what \<^verbatim>\<open>settings\<close> returns on
  the client of the fixture before \<^verbatim>\<open>start\<close>: the read finds no flag, and the
  assignment \<^verbatim>\<open>settings["k8sEnabled"] = true\<close> panics, so the flag is not set and no
  write is signalled. It fails as well on a map whose \<^verbatim>\<open>k8sEnabled\<close> entry is not a
  \<^verbatim>\<open>bool\<close>, where the type assertion panics.
\<close>

theorem setK8sEnabled_nil_map_counterexample:
  "fakeD4MClient_settings fixtureD4M = None \<and>
   setK8sEnabled (fakeD4MClient_settings fixtureD4M) True = Inl NilMapAssignment \<and>
   setK8sEnabled (Some [''k8sEnabled'' \<mapsto> VString ''yes'']) True = Inl TypeAssertion"
  by (simp add: fakeD4MClient_settings_def fixtureD4M_def setK8sEnabled_def mapIndex_def mapAssign_def)

text \<open>
  C4, amended. For every settings map that is not \<^verbatim>\<open>nil\<close> and keeps the schema
  (\<^verbatim>\<open>k8sEnabled\<close>, when present, is a \<^verbatim>\<open>bool\<close>), and whatever is passed as
  \<^verbatim>\<open>desired\<close>: if the flag is already true, \<^verbatim>\<open>setK8sEnabled\<close> returns false and the
  settings unchanged; otherwise it sets the flag to true, changes no other entry and
  signals a write. On such a map it always returns, and a second application, on the
  settings that the first returns, signals no write and changes nothing.
\<close>

theorem setK8sEnabled_idempotent:
  assumes "k8sTyped m"
  shows "(m ''k8sEnabled'' = Some (VBool True) \<longrightarrow> setK8sEnabled (Some m) desired = Inr (Some m, False)) \<and>
         (m ''k8sEnabled'' \<noteq> Some (VBool True) \<longrightarrow>
            setK8sEnabled (Some m) desired = Inr (Some (m(''k8sEnabled'' \<mapsto> VBool True)), True)) \<and>
         (\<exists>s' w. setK8sEnabled (Some m) desired = Inr (s', w) \<and> setK8sEnabled s' desired' = Inr (s', False))"
  using assms
  by (cases "m ''k8sEnabled''")
    (auto simp: setK8sEnabled_def mapIndex_def mapAssign_def k8sTyped_def split: val.splits)

text \<open>
  The settings that \<^verbatim>\<open>start\<close> builds on the fixture have no flag: the first
  application sets it and signals a write, the second signals none.
\<close>

theorem setK8sEnabled_idempotent_witness:
  "fakeD4MClient_settings (fakeD4MClient_start fixtureD4M) = Some [''cpu'' \<mapsto> VInt 1] \<and>
   k8sTyped [''cpu'' \<mapsto> VInt 1] \<and>
   setK8sEnabled (fakeD4MClient_settings (fakeD4MClient_start fixtureD4M)) True =
     Inr (Some [''cpu'' \<mapsto> VInt 1, ''k8sEnabled'' \<mapsto> VBool True], True) \<and>
   setK8sEnabled (Some [''cpu'' \<mapsto> VInt 1, ''k8sEnabled'' \<mapsto> VBool True]) True =
     Inr (Some [''cpu'' \<mapsto> VInt 1, ''k8sEnabled'' \<mapsto> VBool True], False)"
proof -
  have t1: "k8sTyped [''cpu'' \<mapsto> VInt 1]" by (simp add: k8sTyped_def)
  have t2: "k8sTyped [''cpu'' \<mapsto> VInt 1, ''k8sEnabled'' \<mapsto> VBool True]" by (simp add: k8sTyped_def)
  have st: "fakeD4MClient_settings (fakeD4MClient_start fixtureD4M) = Some [''cpu'' \<mapsto> VInt 1]"
    by (simp add: fakeD4MClient_settings_def fakeD4MClient_start_def fixtureD4M_def)
  show ?thesis
    using t1 setK8sEnabled_idempotent[OF t1, of True] setK8sEnabled_idempotent[OF t2, of True]
    by (simp add: st)
qed

section \<open>The field selector and Get\<close>

lemma ListWithOptions_fst: "fst (ListWithOptions env c sel) = filter (matches sel) (fst (List env c))"
  by (cases "List env c") (simp add: ListWithOptions_def)

lemma ListWithOptions_err: "fst (snd (ListWithOptions env c sel)) = None"
  by (cases "List env c") (simp add: ListWithOptions_def)

lemma matches_Equals: "matches [Equals f v] = (\<lambda>cl. clusterField cl f = v)"
  by (rule ext) (simp add: matches_def)

text \<open>
  C5. \<^verbatim>\<open>List\<close> with a field selector never returns an error. With the selector
  \<^verbatim>\<open>product=X\<close> the result is exactly the entries of the listing whose product is
  \<^verbatim>\<open>X\<close>, in the order of the listing. For every selector that no entry of the listing
  matches, the result is empty and the error is \<^verbatim>\<open>nil\<close>.
\<close>

theorem ListWithOptions_selects:
  "fst (snd (ListWithOptions env c sel)) = None \<and>
   fst (ListWithOptions env c [Equals FieldProduct x]) = filter (\<lambda>cl. Product cl = x) (fst (List env c)) \<and>
   set (fst (ListWithOptions env c [Equals FieldProduct x])) = {cl \<in> set (fst (List env c)). Product cl = x} \<and>
   ((\<forall>cl \<in> set (fst (List env c)). \<not> matches sel cl) \<longrightarrow>
      fst (ListWithOptions env c sel) = [] \<and> fst (snd (ListWithOptions env c sel)) = None)"
  by (auto simp: ListWithOptions_fst ListWithOptions_err matches_Equals filter_empty_conv)

text \<open>
  On the fixture, as in \<^verbatim>\<open>TestClusterListSelectorMatch\<close> and
  \<^verbatim>\<open>TestClusterListSelectorNoMatch\<close>: \<^verbatim>\<open>product=microk8s\<close> selects the cluster
  \<^verbatim>\<open>microk8s\<close> alone, and \<^verbatim>\<open>product=kind\<close> selects nothing, without an error.
\<close>

theorem ListWithOptions_selects_witness:
  "map Name (fst (ListWithOptions fixtureEnv (ControllerWithConfig fixtureConfig)
      [Equals FieldProduct ''microk8s''])) = [''microk8s''] \<and>
   fst (ListWithOptions fixtureEnv (ControllerWithConfig fixtureConfig) [Equals FieldProduct ''kind'']) = [] \<and>
   fst (snd (ListWithOptions fixtureEnv (ControllerWithConfig fixtureConfig) [Equals FieldProduct ''kind''])) = None"
proof -
  let ?c = "ControllerWithConfig fixtureConfig :: string controller"
  note T = ListWithOptions_selects[where env = fixtureEnv and c = ?c]
  have m: "fst (ListWithOptions fixtureEnv ?c [Equals FieldProduct ''microk8s'']) =
      filter (\<lambda>cl. Product cl = ''microk8s'') (fst (List fixtureEnv ?c))"
    using T[where x = "''microk8s''"] by blast
  have none: "\<forall>cl \<in> set (fst (List fixtureEnv ?c)). \<not> matches [Equals FieldProduct ''kind''] cl"
    by (simp only: fixture_List) (simp add: matches_def newCluster_def fixtureEnv_def)
  have k: "fst (ListWithOptions fixtureEnv ?c [Equals FieldProduct ''kind'']) = [] \<and>
           fst (snd (ListWithOptions fixtureEnv ?c [Equals FieldProduct ''kind''])) = None"
    using T[where sel = "[Equals FieldProduct ''kind'']", THEN conjunct2, THEN conjunct2, THEN conjunct2] none
    by (rule mp)
  have "map Name (filter (\<lambda>cl. Product cl = ''microk8s'') (fst (List fixtureEnv ?c))) = [''microk8s'']"
    by (simp only: fixture_List) (simp add: newCluster_def fixtureEnv_def)
  then show ?thesis using m k by simp
qed

lemma Get_cases:
  "fst (Get env c name) =
     (case filter (\<lambda>cl. Name cl = name) (fst (List env c)) of
        [] \<Rightarrow> Inl (NotFound name) | cl # rest \<Rightarrow> Inr cl)"
proof -
  obtain r e w c' where l: "ListWithOptions env c [Equals FieldName name] = (r, e, w, c')"
    by (cases "ListWithOptions env c [Equals FieldName name]") auto
  have "r = filter (\<lambda>cl. Name cl = name) (fst (List env c))"
    using ListWithOptions_fst[of env c "[Equals FieldName name]"] l by (simp add: matches_Equals)
  then show ?thesis using l by (simp add: Get_def split: list.splits)
qed

text \<open>
  C6. For every name that is not among the recorded contexts, \<^verbatim>\<open>Get\<close> fails with the
  NotFound error of that name, which \<^verbatim>\<open>IsNotFound\<close> recognises (and it recognises no
  error of another kind). For every recorded name it returns, without error, a cluster
  of that name, which is an entry of the listing.
\<close>

theorem Get_NotFound:
  "(name \<notin> fst ` set (Contexts (config c)) \<longrightarrow>
      fst (Get env c name) = Inl (NotFound name) \<and> IsNotFound (NotFound name)) \<and>
   (name \<in> fst ` set (Contexts (config c)) \<longrightarrow>
      (\<exists>cl. fst (Get env c name) = Inr cl \<and> Name cl = name \<and> cl \<in> set (fst (List env c)))) \<and>
   \<not> IsNotFound (NotSupported p) \<and> \<not> IsNotFound (NotInstalled p) \<and>
   \<not> IsNotFound EngineUnavailable \<and> \<not> IsNotFound (Failure p)"
proof (intro conjI impI)
  assume n: "name \<notin> fst ` set (Contexts (config c))"
  have "set (map Name (fst (List env c))) = fst ` set (Contexts (config c))"
    by (simp only: List_names set_map)
  then have "filter (\<lambda>cl. Name cl = name) (fst (List env c)) = []"
    using n by (auto simp: filter_empty_conv)
  then show "fst (Get env c name) = Inl (NotFound name)" by (simp add: Get_cases)
  show "IsNotFound (NotFound name)" by simp
next
  assume n: "name \<in> fst ` set (Contexts (config c))"
  have "set (map Name (fst (List env c))) = fst ` set (Contexts (config c))"
    by (simp only: List_names set_map)
  then have "name \<in> Name ` set (fst (List env c))"
    using n by simp
  then obtain x where x: "x \<in> set (fst (List env c))" "Name x = name"
    by auto
  then have "filter (\<lambda>cl. Name cl = name) (fst (List env c)) \<noteq> []"
    by (auto simp: filter_empty_conv)
  then obtain cl rest where f: "filter (\<lambda>cl. Name cl = name) (fst (List env c)) = cl # rest"
    by (cases "filter (\<lambda>cl. Name cl = name) (fst (List env c))") auto
  then have "cl \<in> set (filter (\<lambda>cl. Name cl = name) (fst (List env c)))" by simp
  then have "Name cl = name \<and> cl \<in> set (fst (List env c))" by simp
  then show "\<exists>cl. fst (Get env c name) = Inr cl \<and> Name cl = name \<and> cl \<in> set (fst (List env c))"
    using f by (simp add: Get_cases)
qed simp_all

text \<open>
  On the fixture, as in \<^verbatim>\<open>TestClusterGetMissing\<close> and \<^verbatim>\<open>TestClusterGet\<close>:
  \<^verbatim>\<open>dunkees\<close> is not recorded and \<^verbatim>\<open>microk8s\<close> is.
\<close>

theorem Get_NotFound_witness:
  "''dunkees'' \<notin> fst ` set (Contexts (config (ControllerWithConfig fixtureConfig :: string controller))) \<and>
   fst (Get fixtureEnv (ControllerWithConfig fixtureConfig) ''dunkees'') = Inl (NotFound ''dunkees'') \<and>
   ''microk8s'' \<in> fst ` set (Contexts (config (ControllerWithConfig fixtureConfig :: string controller))) \<and>
   (\<exists>cl. fst (Get fixtureEnv (ControllerWithConfig fixtureConfig) ''microk8s'') = Inr cl \<and>
         Name cl = ''microk8s'')"
proof -
  let ?c = "ControllerWithConfig fixtureConfig :: string controller"
  have a: "''dunkees'' \<notin> fst ` set (Contexts (config ?c))"
    by (simp add: ControllerWithConfig_def fixtureConfig_def)
  have b: "''microk8s'' \<in> fst ` set (Contexts (config ?c))"
    by (simp add: ControllerWithConfig_def fixtureConfig_def)
  note A = Get_NotFound[where env = fixtureEnv and c = ?c and name = "''dunkees''",
      THEN conjunct1, THEN mp, OF a, THEN conjunct1]
  note B = Get_NotFound[where env = fixtureEnv and c = ?c and name = "''microk8s''",
      THEN conjunct2, THEN conjunct1, THEN mp, OF b]
  from B obtain cl where cl: "fst (Get fixtureEnv ?c ''microk8s'') = Inr cl" "Name cl = ''microk8s''"
    by (elim exE conjE)
  have "\<exists>cl. fst (Get fixtureEnv ?c ''microk8s'') = Inr cl \<and> Name cl = ''microk8s''"
    using cl by (intro exI[of _ cl] conjI)
  with a b A show ?thesis by (intro conjI)
qed

section \<open>Apply and the version of Kubernetes\<close>

text \<open>
  C2. For every desired spec whose adapter is registered and installed and whose
  machine step succeeds, on a name whose cluster exists with a running version that
  differs from the \<^verbatim>\<open>KubernetesVersion\<close> that the spec sets: when the adapter's Delete,
  the realization of the registry and the adapter's Create succeed, \<^verbatim>\<open>Apply\<close>
  returns a cluster, not an error, and after the install check and the machine step
  its events are, in this order, the adapter's Delete of the existing cluster, the
  message \<^verbatim>\<open>Deleting cluster <name> because desired Kubernetes version (<want>) does not
  match current (<have>)\<close>, the events of the registry, and the adapter's Create.
\<close>

theorem Apply_recreates_on_version_mismatch:
  assumes adm: "admins env (Product (resolveName env desired)) = Some adm"
      and inst: "EnsureInstalled adm w = None"
      and mach: "ensureDesktop env (resolveName env desired) w = (None, w1, evs1)"
      and obs: "observe env w1 (Name (resolveName env desired)) = Some (existing, cur)"
      and want: "KubernetesVersion desired \<noteq> []" "KubernetesVersion desired \<noteq> cur"
      and del: "Delete adm existing w1 = (None, w2)"
      and reg: "realizeRegistry env (resolveName env desired) w2 = (Inr reg, w3, evs3)"
      and cre: "Create adm (resolveName env desired) reg w3 = (None, w4)"
  shows "Apply env desired w =
           (Inr (finalStatus env adm reg w4 (resolveName env desired)), w4,
            EnsureInstalledCalled (Product (resolveName env desired)) # evs1 @
            [DeleteCalled existing,
             Message (''Deleting cluster '' @ Name (resolveName env desired) @
                      '' because desired Kubernetes version ('' @ KubernetesVersion desired @
                      '') does not match current ('' @ cur @ '')'')] @
            evs3 @ [CreateCalled (resolveName env desired) reg])"
proof -
  let ?d = "resolveName env desired"
  have kv: "KubernetesVersion ?d = KubernetesVersion desired"
    by (simp add: resolveName_def)
  have c: "applyCreate env adm ?d w2 =
             (Inr (finalStatus env adm reg w4 ?d), w4, evs3 @ [CreateCalled ?d reg])"
    using reg cre by (simp add: applyCreate_def)
  have r: "applyReconcile env adm ?d w1 =
             (Inr (finalStatus env adm reg w4 ?d), w4,
              [DeleteCalled existing, Message (deleteMessage (Name ?d) (KubernetesVersion desired) cur)]
              @ evs3 @ [CreateCalled ?d reg])"
    using obs want del c kv by (simp add: applyReconcile_def)
  show ?thesis
    using adm inst mach r by (simp add: Apply_def Let_def deleteMessage_def)
qed

text \<open>
  As in \<^verbatim>\<open>TestClusterApplyMinikubeVersion\<close>: \<^verbatim>\<open>minikube\<close> runs v1.14.0 and v1.15.0
  is applied, with the fake adapter of the tests. The adapter deletes the old cluster,
  the message is emitted, the adapter creates the new one, and the server runs v1.15.0.
\<close>

theorem Apply_recreates_on_version_mismatch_witness:
  "snd (snd (Apply fixtureApplyEnv (minikubeSpec ''v1.15.0'') minikubeWorld)) =
     [EnsureInstalledCalled ''minikube'',
      DeleteCalled ((minikubeSpec ''v1.14.0'')\<lparr>Name := ''minikube''\<rparr>),
      Message ''Deleting cluster minikube because desired Kubernetes version (v1.15.0) does not match current (v1.14.0)'',
      CreateCalled ((minikubeSpec ''v1.15.0'')\<lparr>Name := ''minikube''\<rparr>) None] \<and>
   fst (Apply fixtureApplyEnv (minikubeSpec ''v1.15.0'') minikubeWorld) =
     Inr ((minikubeSpec ''v1.15.0'')\<lparr>Name := ''minikube''\<rparr>) \<and>
   fakedServerVersion (fst (fst (snd (Apply fixtureApplyEnv (minikubeSpec ''v1.15.0'') minikubeWorld))))
     = Some ''v1.15.0''"
proof -
  let ?d = "minikubeSpec ''v1.15.0''"
  let ?d' = "(minikubeSpec ''v1.15.0'')\<lparr>Name := ''minikube''\<rparr>"
  let ?old = "(minikubeSpec ''v1.14.0'')\<lparr>Name := ''minikube''\<rparr>"
  let ?w2 = "(fst minikubeWorld\<lparr>deleted := Some ?old,
                adminContexts := (adminContexts (fst minikubeWorld))(''minikube'' := None)\<rparr>, None :: registry option)"
  have rn: "resolveName fixtureApplyEnv ?d = ?d'"
    by (simp add: resolveName_def minikubeSpec_def fixtureApplyEnv_def)
  have adm: "admins fixtureApplyEnv (Product (resolveName fixtureApplyEnv ?d)) = Some fixtureAdmin"
    by (simp add: rn) (simp add: minikubeSpec_def fixtureApplyEnv_def)
  have inst: "EnsureInstalled fixtureAdmin minikubeWorld = None"
    by (simp add: fixtureAdmin_def fakeAdmin_EnsureInstalled_def)
  have mach: "ensureDesktop fixtureApplyEnv (resolveName fixtureApplyEnv ?d) minikubeWorld = (None, minikubeWorld, [])"
    by (simp add: rn) (simp add: ensureDesktop_def minikubeSpec_def fixtureApplyEnv_def)
  have obs: "observe fixtureApplyEnv minikubeWorld (Name (resolveName fixtureApplyEnv ?d)) = Some (?old, ''v1.14.0'')"
    by (simp add: rn) (simp add: fixtureApplyEnv_def minikubeWorld_def)
  have want: "KubernetesVersion ?d \<noteq> []" "KubernetesVersion ?d \<noteq> ''v1.14.0''"
    by (simp_all add: minikubeSpec_def)
  have del: "Delete fixtureAdmin ?old minikubeWorld = (None, ?w2)"
    by (simp add: fixtureAdmin_def fakeAdmin_Delete_def minikubeWorld_def minikubeSpec_def)
  have reg: "realizeRegistry fixtureApplyEnv (resolveName fixtureApplyEnv ?d) ?w2 = (Inr None, ?w2, [])"
    by (simp add: rn) (simp add: realizeRegistry_def minikubeSpec_def)
  let ?w4 = "snd (Create fixtureAdmin ?d' None ?w2)"
  have cre': "Create fixtureAdmin ?d' None ?w2 = (None, ?w4)"
    by (simp add: fixtureAdmin_def fakeAdmin_Create_def)
  have cre: "Create fixtureAdmin (resolveName fixtureApplyEnv ?d) None ?w2 = (None, ?w4)"
    using cre' by (simp only: rn)
  have ver: "fakedServerVersion (fst ?w4) = Some ''v1.15.0''"
    by (simp add: fixtureAdmin_def fakeAdmin_Create_def minikubeSpec_def)
  have fin: "finalStatus fixtureApplyEnv fixtureAdmin None ?w4 ?d' = ?d'"
    by (simp add: finalStatus_def fixtureApplyEnv_def)
  have msg: "''Deleting cluster '' @ Name ?d' @ '' because desired Kubernetes version ('' @
      KubernetesVersion ?d @ '') does not match current ('' @ ''v1.14.0'' @ '')'' =
      ''Deleting cluster minikube because desired Kubernetes version (v1.15.0) does not match current (v1.14.0)''"
    by (simp add: minikubeSpec_def)
  have prod: "Product ?d' = ''minikube''" by (simp add: minikubeSpec_def)
  note T = Apply_recreates_on_version_mismatch[OF adm inst mach obs want del reg cre]
  have T': "Apply fixtureApplyEnv ?d minikubeWorld =
      (Inr ?d', ?w4,
       [EnsureInstalledCalled ''minikube'', DeleteCalled ?old,
        Message ''Deleting cluster minikube because desired Kubernetes version (v1.15.0) does not match current (v1.14.0)'',
        CreateCalled ?d' None])"
    using T[unfolded rn fin prod msg] by (simp only: append_Nil append_Cons)
  show ?thesis
    using ver by (simp only: T' fst_conv snd_conv simp_thms)
qed

end
